theory Spec2Isabelle
  imports Complex_Main
begin

text \<open>
  A shallow embedding of \<open>slad_model.py\<close>: the class balancer, the prototype
  similarity, the three graph encoders, the readout heads and the SLADGNN model with its
  constructor and forward pass.  A tensor entry is a value of a type \<open>'a\<close> that is left
  open: it stands for a 32-bit floating-point number, finite, infinite or not-a-number,
  and every operation of the tensor library on entries is a parameter of the model, so
  nothing is assumed about rounding or overflow.  The device a tensor lives on is not
  modelled.  Sizes and widths are natural numbers.  Every Python exception is a value of
  type \<open>error\<close>, and a function that can raise returns a sum with \<open>error\<close> on the left.
\<close>

section \<open>Tensors and Python results\<close>

datatype error = ValueError string | TypeError | IndexError | RuntimeError | AttributeError

text \<open>
  A two-dimensional tensor of shape \<open>(length rows, cols)\<close>.  The width is kept beside
  the rows so that a tensor without rows still has one.
\<close>

record 'a matrix =
  cols :: nat
  rows :: "'a list list"

text \<open>
  \<open>torch.cat([A, B], dim=0)\<close> and the row gather \<open>M[idx]\<close> with an index tensor.
\<close>

definition cat0 :: "'a matrix \<Rightarrow> 'a matrix \<Rightarrow> error + 'a matrix" where
  "cat0 A B =
     (if cols A = cols B then Inr \<lparr>cols = cols A, rows = rows A @ rows B\<rparr>
      else Inl RuntimeError)"

definition index_rows :: "'a matrix \<Rightarrow> nat list \<Rightarrow> error + 'a matrix" where
  "index_rows M idx =
     (if list_all (\<lambda>i. i < length (rows M)) idx
      then Inr \<lparr>cols = cols M, rows = map (\<lambda>i. rows M ! i) idx\<rparr>
      else Inl IndexError)"

section \<open>Class balancer\<close>

text \<open>
  \<open>balance_features_labels\<close>, lines 10 to 41.  \<open>count_eq labels v\<close> is
  \<open>torch.sum(labels == v).item()\<close>, \<open>where_eq labels v\<close> is
  \<open>torch.where(labels == v)[0]\<close>, and \<open>minority_label\<close> is the local of line 14 (bound
  to \<open>m\<close> in the body below).  The function returns a pair, or Python's \<open>None\<close> when
  control reaches the end of the body, hence the \<open>option\<close>.  The resampler object
  \<open>SMOTE(...).fit_resample\<close> is a parameter, called with the three keyword arguments of
  line 24; its dictionary has the single key \<open>minority_label\<close>.  A negative repeat
  count makes \<open>Tensor.repeat\<close> raise.
\<close>

record smote_args =
  sampling_strategy :: "int \<times> int"
  random_state :: int
  k_neighbors :: int

type_synonym 'a resampler =
  "smote_args \<Rightarrow> 'a matrix \<Rightarrow> int list \<Rightarrow> error + ('a matrix \<times> int list)"

definition count_eq :: "int list \<Rightarrow> int \<Rightarrow> nat" where
  "count_eq labels v = length (filter (\<lambda>l. l = v) labels)"

definition where_eq :: "int list \<Rightarrow> int \<Rightarrow> nat list" where
  "where_eq labels v = filter (\<lambda>i. labels ! i = v) [0..<length labels]"

definition minority_label :: "int list \<Rightarrow> int" where
  "minority_label labels = (if count_eq labels 0 < count_eq labels 1 then 0 else 1)"

definition balance_features_labels ::
  "'a resampler \<Rightarrow> 'a matrix \<Rightarrow> int list \<Rightarrow> int \<Rightarrow> string \<Rightarrow>
   error + ('a matrix \<times> int list) option" where
  "balance_features_labels fit_resample features labels over_sample_scale_factor sample_method =
     (let m = minority_label labels;
          minority_indices = where_eq labels m
      in if length minority_indices \<le> 1 \<or> over_sample_scale_factor = 0
         then Inr (Some (features, labels))
         else if sample_method = ''SMOTE'' then
           (let n_neighbor =
                  (if int (length minority_indices) - 1 < over_sample_scale_factor
                   then int (length minority_indices) - 1 else over_sample_scale_factor)
            in case fit_resample
                      \<lparr>sampling_strategy = (m, int (length minority_indices) * over_sample_scale_factor),
                       random_state = 42, k_neighbors = n_neighbor\<rparr> features labels of
                 Inl e \<Rightarrow> Inl e
               | Inr (f, l) \<Rightarrow> Inr (Some (f, l)))
         else if sample_method = ''copy'' then
           (if over_sample_scale_factor < 0 then Inl RuntimeError
            else case index_rows features
                        (concat (replicate (nat over_sample_scale_factor) minority_indices)) of
                   Inl e \<Rightarrow> Inl e
                 | Inr selected_features \<Rightarrow>
                     (case cat0 features selected_features of
                        Inl e \<Rightarrow> Inl e
                      | Inr f \<Rightarrow>
                          Inr (Some (f, labels @
                                 replicate (nat (int (length minority_indices) * over_sample_scale_factor)) m))))
         else Inr None)"

text \<open>
  The resampler of the imbalanced-learn library is not part of the repository.  The
  balancer above takes it as a parameter; the definition below records the library's
  documented contract for the one configuration the balancer uses, a dictionary
  \<open>sampling_strategy\<close> with a single class: the value is the number of samples that
  class shall have \<^emph>\<open>after\<close> resampling, a value below the present class size is a
  \<open>ValueError\<close>, input without feature columns or with a row count other than the
  number of labels is a \<open>ValueError\<close>, and the synthetic rows are stacked below the
  unchanged input, their labels below the input labels.
  The interpolated rows themselves depend on the random state; \<open>synth k minority j\<close>
  stands for the \<open>j\<close>-th of them.
\<close>

definition minority_rows :: "'a matrix \<Rightarrow> int list \<Rightarrow> int \<Rightarrow> 'a list list" where
  "minority_rows X y cls = map fst (filter (\<lambda>(r, l). l = cls) (zip (rows X) y))"

definition SMOTE_fit_resample ::
  "(nat \<Rightarrow> 'a list list \<Rightarrow> nat \<Rightarrow> 'a list) \<Rightarrow> 'a resampler" where
  "SMOTE_fit_resample synth args X y =
     (let cls = fst (sampling_strategy args);
          target = snd (sampling_strategy args);
          present = int (count_eq y cls)
      in if cols X = 0 \<or> length (rows X) \<noteq> length y
         then Inl (ValueError ''invalid input'')
         else if target < present
         then Inl (ValueError ''With over-sampling methods, the number of samples in a class should be greater or equal to the original number of samples.'')
         else let n_new = nat (target - present)
              in Inr (\<lparr>cols = cols X,
                        rows = rows X @
                          map (synth (nat (k_neighbors args)) (minority_rows X y cls)) [0..<n_new]\<rparr>,
                      y @ replicate n_new cls))"

section \<open>The tensor library\<close>

text \<open>
  What the tensor and graph-learning libraries compute is a parameter of the model.
  The record \<open>arithmetic\<close> holds the operations on entries that the similarity uses,
  the record \<open>externals\<close> adds the layers.  On entries: \<open>fl_const\<close> is the entry that a Python number becomes in a tensor,
  \<open>fl_sub\<close>, \<open>fl_add\<close> and \<open>fl_div\<close> are the elementwise \<open>-\<close>, \<open>+\<close> and \<open>/\<close>,
  \<open>fl_norm\<close> is \<open>torch.norm\<close> over the last axis, \<open>fl_square\<close> is \<open>** 2\<close>, \<open>fl_log\<close>
  is \<open>torch.log\<close>, the four activations are \<open>F.relu\<close>, \<open>F.leaky_relu\<close>, \<open>F.gelu\<close>
  and \<open>nn.Sigmoid\<close>, \<open>fl_affine x w b\<close> is one output unit of \<open>nn.Linear\<close> on the
  input row \<open>x\<close>, \<open>fl_rescale p\<close> is what \<open>F.dropout\<close> with rate \<open>p\<close> does to an
  entry it keeps, and \<open>fl_layer_norm w b\<close> is \<open>nn.LayerNorm\<close> with weight \<open>w\<close> and
  bias \<open>b\<close> on one row.  On graphs: a convolution layer is its constructor call together
  with the parameters allocated for it, \<open>conv_numel\<close> is the number of parameter entries
  a constructor allocates and \<open>conv_apply\<close> the layer's forward pass on node features
  and edges.
\<close>

datatype conv =
    GCNConv nat nat
  | GATConv nat nat nat real
  | TransformerConv nat nat nat real

record 'a arithmetic =
  fl_const :: "real \<Rightarrow> 'a"
  fl_sub :: "'a \<Rightarrow> 'a \<Rightarrow> 'a"
  fl_add :: "'a \<Rightarrow> 'a \<Rightarrow> 'a"
  fl_div :: "'a \<Rightarrow> 'a \<Rightarrow> 'a"
  fl_norm :: "'a list \<Rightarrow> 'a"
  fl_square :: "'a \<Rightarrow> 'a"
  fl_log :: "'a \<Rightarrow> 'a"

record 'a externals = "'a arithmetic" +
  conv_numel :: "conv \<Rightarrow> nat"
  conv_apply :: "conv \<Rightarrow> 'a list \<Rightarrow> 'a matrix \<Rightarrow> (nat \<times> nat) list \<Rightarrow> error + 'a matrix"
  fl_relu :: "'a \<Rightarrow> 'a"
  fl_leaky_relu :: "'a \<Rightarrow> 'a"
  fl_gelu :: "'a \<Rightarrow> 'a"
  fl_sigmoid :: "'a \<Rightarrow> 'a"
  fl_affine :: "'a list \<Rightarrow> 'a list \<Rightarrow> 'a \<Rightarrow> 'a"
  fl_rescale :: "real \<Rightarrow> 'a \<Rightarrow> 'a"
  fl_layer_norm :: "'a list \<Rightarrow> 'a list \<Rightarrow> 'a list \<Rightarrow> 'a list"

section \<open>Prototype similarity\<close>

text \<open>
  \<open>calculate_similarity\<close>, lines 44 to 65.  \<open>expand_cols\<close> is
  \<open>prototypes.unsqueeze(0).expand(n, k, m)\<close>: it needs the prototype width to be \<open>m\<close>,
  or 1, in which case the single column is broadcast.  \<open>epsilon\<close> is the Python number
  \<open>1e-4\<close> of line 62.
\<close>

definition epsilon :: real where
  "epsilon = 1 / 10000"

definition expand_cols :: "nat \<Rightarrow> 'a matrix \<Rightarrow> error + 'a list list" where
  "expand_cols m P =
     (if cols P = m then Inr (rows P)
      else if cols P = 1 then Inr (map (\<lambda>p. replicate m (p ! 0)) (rows P))
      else Inl RuntimeError)"

definition calculate_similarity ::
  "('a, 'z) arithmetic_scheme \<Rightarrow> 'a matrix \<Rightarrow> 'a matrix \<Rightarrow> error + 'a matrix" where
  "calculate_similarity ext node_embedding prototypes =
     (let m = cols node_embedding;
          k = length (rows prototypes)
      in case expand_cols m prototypes of
           Inl e \<Rightarrow> Inl e
         | Inr prototypes_expanded \<Rightarrow>
             Inr \<lparr>cols = k,
                  rows = map (\<lambda>node.
                           map (\<lambda>prototype.
                                  let distance =
                                        fl_square ext
                                          (fl_norm ext (map2 (fl_sub ext) node prototype))
                                  in fl_log ext
                                       (fl_div ext
                                          (fl_add ext distance (fl_const ext 1))
                                          (fl_add ext distance (fl_const ext epsilon))))
                               prototypes_expanded)
                         (rows node_embedding)\<rparr>)"

section \<open>Binary32 arithmetic\<close>

text \<open>
  The tensors of the model hold 32-bit floating-point numbers, the default type of
  \<open>torch.randn\<close> and of the \<open>nn\<close> layers.  The operations that \<open>calculate_similarity\<close> calls
  are given here as IEEE 754 binary32 has them: a value is a real number, an infinity or
  NaN; an operation takes the exact result and rounds it to the nearest representable
  number, a tie going to the even significand, and a result beyond the largest number
  becomes an infinity.  \<open>expo32\<close> is the exponent of the binade (\<open>- 126\<close> for the subnormal
  numbers), \<open>ulp32\<close> the spacing of the numbers there, \<open>max32\<close> the largest number.  The sign
  of zero is not kept.  \<open>torch.norm\<close> adds the squares from left to right, and the square
  root and the logarithm are correctly rounded; this library code is not in the
  repository.  \<open>distance32\<close> and \<open>log_ratio32\<close> name the two steps of lines 63 and 64.
\<close>

datatype f32 = Finite real | PInf | NInf | NaN

definition round_even :: "real \<Rightarrow> int" where
  "round_even r =
     (let f = \<lfloor>r\<rfloor>
      in if r - of_int f < 1 / 2 then f
         else if 1 / 2 < r - of_int f then f + 1
         else if even f then f else f + 1)"

definition expo32 :: "real \<Rightarrow> int" where
  "expo32 x = max \<lfloor>log 2 \<bar>x\<bar>\<rfloor> (- 126)"

definition ulp32 :: "real \<Rightarrow> real" where
  "ulp32 x = 2 powr (of_int (expo32 x) - 23)"

definition rnd32 :: "real \<Rightarrow> real" where
  "rnd32 x =
     (if x = 0 then 0
      else sgn x * (of_int (round_even (\<bar>x\<bar> / ulp32 x)) * ulp32 x))"

definition max32 :: real where
  "max32 = (2 ^ 24 - 1) * 2 ^ 104"

definition round32 :: "real \<Rightarrow> f32" where
  "round32 x =
     (if max32 < rnd32 x then PInf
      else if rnd32 x < - max32 then NInf
      else Finite (rnd32 x))"

fun f32_neg :: "f32 \<Rightarrow> f32" where
  "f32_neg (Finite a) = Finite (- a)"
| "f32_neg PInf = NInf"
| "f32_neg NInf = PInf"
| "f32_neg NaN = NaN"

fun f32_add :: "f32 \<Rightarrow> f32 \<Rightarrow> f32" where
  "f32_add (Finite a) (Finite b) = round32 (a + b)"
| "f32_add NaN y = NaN"
| "f32_add x NaN = NaN"
| "f32_add PInf NInf = NaN"
| "f32_add NInf PInf = NaN"
| "f32_add PInf y = PInf"
| "f32_add x PInf = PInf"
| "f32_add NInf y = NInf"
| "f32_add x NInf = NInf"

definition f32_sub :: "f32 \<Rightarrow> f32 \<Rightarrow> f32" where
  "f32_sub x y = f32_add x (f32_neg y)"

fun f32_div :: "f32 \<Rightarrow> f32 \<Rightarrow> f32" where
  "f32_div (Finite a) (Finite b) =
     (if b = 0 then (if a = 0 then NaN else if 0 < a then PInf else NInf)
      else round32 (a / b))"
| "f32_div NaN y = NaN"
| "f32_div x NaN = NaN"
| "f32_div (Finite a) y = Finite 0"
| "f32_div PInf (Finite b) = (if 0 \<le> b then PInf else NInf)"
| "f32_div NInf (Finite b) = (if 0 \<le> b then NInf else PInf)"
| "f32_div x y = NaN"

fun f32_square :: "f32 \<Rightarrow> f32" where
  "f32_square (Finite a) = round32 (a * a)"
| "f32_square NaN = NaN"
| "f32_square x = PInf"

fun f32_sqrt :: "f32 \<Rightarrow> f32" where
  "f32_sqrt (Finite a) = (if a < 0 then NaN else round32 (sqrt a))"
| "f32_sqrt PInf = PInf"
| "f32_sqrt x = NaN"

fun f32_log :: "f32 \<Rightarrow> f32" where
  "f32_log (Finite a) = (if a < 0 then NaN else if a = 0 then NInf else round32 (ln a))"
| "f32_log PInf = PInf"
| "f32_log x = NaN"

definition f32_norm :: "f32 list \<Rightarrow> f32" where
  "f32_norm v = f32_sqrt (foldl f32_add (Finite 0) (map f32_square v))"

definition binary32 :: "f32 arithmetic" where
  "binary32 =
     \<lparr>fl_const = round32, fl_sub = f32_sub, fl_add = f32_add, fl_div = f32_div,
      fl_norm = f32_norm, fl_square = f32_square, fl_log = f32_log\<rparr>"

definition distance32 :: "f32 list \<Rightarrow> f32 list \<Rightarrow> f32" where
  "distance32 x p = f32_square (f32_norm (map2 f32_sub x p))"

definition log_ratio32 :: "f32 \<Rightarrow> f32" where
  "log_ratio32 d = f32_log (f32_div (f32_add d (round32 1)) (f32_add d (round32 epsilon)))"

fun finite32 :: "f32 \<Rightarrow> bool" where
  "finite32 (Finite a) = True"
| "finite32 x = False"

definition not_negative :: "f32 \<Rightarrow> bool" where
  "not_negative v = (case v of Finite r \<Rightarrow> 0 \<le> r | PInf \<Rightarrow> True | NInf \<Rightarrow> False | NaN \<Rightarrow> True)"

section \<open>Graph batch, random initialisation and library layers\<close>

record 'a data =
  data_x :: "'a matrix"
  data_edge_index :: "(nat \<times> nat) list"
  data_y :: "int list"

text \<open>
  Parameter tensors are filled from the random generator when a module is constructed.
  The generator is a stream of draws; allocating a tensor of \<open>n\<close> entries consumes the
  next \<open>n\<close> of them.
\<close>

type_synonym 'a generator = "nat \<Rightarrow> 'a"

definition draw :: "nat \<Rightarrow> 'a generator \<Rightarrow> 'a list \<times> 'a generator" where
  "draw n g = (map g [0..<n], \<lambda>i. g (i + n))"

fun construct_all ::
  "('s \<Rightarrow> 'a generator \<Rightarrow> 'm \<times> 'a generator) \<Rightarrow> 's list \<Rightarrow> 'a generator \<Rightarrow>
   'm list \<times> 'a generator" where
  "construct_all new [] g = ([], g)"
| "construct_all new (s # ss) g =
     (let (m, g1) = new s g; (ms, g2) = construct_all new ss g1 in (m # ms, g2))"

record 'a conv_layer =
  conv_call :: conv
  conv_params :: "'a list"

definition new_conv ::
  "'a externals \<Rightarrow> conv \<Rightarrow> 'a generator \<Rightarrow> 'a conv_layer \<times> 'a generator" where
  "new_conv ext c g =
     (let (w, g1) = draw (conv_numel ext c) g in (\<lparr>conv_call = c, conv_params = w\<rparr>, g1))"

definition apply_conv ::
  "'a externals \<Rightarrow> 'a conv_layer \<Rightarrow> 'a matrix \<Rightarrow> (nat \<times> nat) list \<Rightarrow> error + 'a matrix" where
  "apply_conv ext l X edge_index = conv_apply ext (conv_call l) (conv_params l) X edge_index"

definition map_entries :: "('a \<Rightarrow> 'a) \<Rightarrow> 'a matrix \<Rightarrow> 'a matrix" where
  "map_entries f M = \<lparr>cols = cols M, rows = map (map f) (rows M)\<rparr>"

definition F_relu :: "'a externals \<Rightarrow> 'a matrix \<Rightarrow> 'a matrix" where
  "F_relu ext = map_entries (fl_relu ext)"

definition F_leaky_relu :: "'a externals \<Rightarrow> 'a matrix \<Rightarrow> 'a matrix" where
  "F_leaky_relu ext = map_entries (fl_leaky_relu ext)"

definition F_gelu :: "'a externals \<Rightarrow> 'a matrix \<Rightarrow> 'a matrix" where
  "F_gelu ext = map_entries (fl_gelu ext)"

record 'a linear =
  in_dim :: nat
  out_dim :: nat
  weight :: "'a list list"
  bias :: "'a list"

definition chunks :: "nat \<Rightarrow> nat \<Rightarrow> 'a list \<Rightarrow> 'a list list" where
  "chunks n width vs = map (\<lambda>r. take width (drop (r * width) vs)) [0..<n]"

definition Linear :: "nat \<times> nat \<Rightarrow> 'a generator \<Rightarrow> 'a linear \<times> 'a generator" where
  "Linear dims g =
     (let (w, g1) = draw (snd dims * fst dims) g;
          (b, g2) = draw (snd dims) g1
      in (\<lparr>in_dim = fst dims, out_dim = snd dims,
            weight = chunks (snd dims) (fst dims) w, bias = b\<rparr>, g2))"

definition linear_forward :: "'a externals \<Rightarrow> 'a linear \<Rightarrow> 'a matrix \<Rightarrow> error + 'a matrix" where
  "linear_forward ext l X =
     (if cols X = in_dim l
      then Inr \<lparr>cols = out_dim l,
                rows = map (\<lambda>r. map2 (\<lambda>w b. fl_affine ext r w b) (weight l) (bias l)) (rows X)\<rparr>
      else Inl RuntimeError)"

record 'a layer_norm =
  normalized_shape :: nat
  ln_weight :: "'a list"
  ln_bias :: "'a list"

definition LayerNorm :: "'a externals \<Rightarrow> nat \<Rightarrow> 'a layer_norm" where
  "LayerNorm ext n =
     \<lparr>normalized_shape = n, ln_weight = replicate n (fl_const ext 1),
      ln_bias = replicate n (fl_const ext 0)\<rparr>"

definition layer_norm_forward ::
  "'a externals \<Rightarrow> 'a layer_norm \<Rightarrow> 'a matrix \<Rightarrow> error + 'a matrix" where
  "layer_norm_forward ext layer X =
     (if cols X = normalized_shape layer
      then Inr \<lparr>cols = cols X,
                rows = map (fl_layer_norm ext (ln_weight layer) (ln_bias layer)) (rows X)\<rparr>
      else Inl RuntimeError)"

section \<open>Graph encoders\<close>

text \<open>
  The encoder classes, lines 68 to 129.  A constructor reads \<open>hidden_sizes[0]\<close> before
  it builds its first layer, which raises \<open>IndexError\<close> on an empty list.  The forward
  loops of the GCN and the GAT encoder call the layer inside each branch of the dispatch
  on the activation name, as the source does.
\<close>

datatype 'a encoder =
    MultiLayerGCN string "'a conv_layer list"
  | MultiLayerGAT string "'a conv_layer list"
  | MultiLayerGTC "'a conv_layer list" "'a layer_norm list"

definition MultiLayerGCN_init ::
  "'a externals \<Rightarrow> nat \<Rightarrow> nat list \<Rightarrow> string \<Rightarrow> 'a generator \<Rightarrow> error + ('a encoder \<times> 'a generator)" where
  "MultiLayerGCN_init ext num_features hidden_sizes activation_fuc g =
     (if hidden_sizes = [] then Inl IndexError
      else let (conv_layers, g1) =
                 construct_all (new_conv ext)
                   (GCNConv num_features (hidden_sizes ! 0) #
                    map (\<lambda>i. GCNConv (hidden_sizes ! (i - 1)) (hidden_sizes ! i))
                      [1..<length hidden_sizes]) g
           in Inr (MultiLayerGCN activation_fuc conv_layers, g1))"

definition MultiLayerGAT_init ::
  "'a externals \<Rightarrow> nat \<Rightarrow> nat list \<Rightarrow> string \<Rightarrow> nat \<Rightarrow> real \<Rightarrow> 'a generator \<Rightarrow>
   error + ('a encoder \<times> 'a generator)" where
  "MultiLayerGAT_init ext in_features hidden_dims activation_fuc num_head dropout g =
     (if hidden_dims = [] then Inl IndexError
      else let (gat_layers, g1) =
                 construct_all (new_conv ext)
                   (GATConv in_features (hidden_dims ! 0) num_head dropout #
                    map (\<lambda>i. GATConv (hidden_dims ! (i - 1) * num_head) (hidden_dims ! i)
                                num_head dropout)
                      [1..<length hidden_dims]) g
           in Inr (MultiLayerGAT activation_fuc gat_layers, g1))"

definition MultiLayerGTC_init ::
  "'a externals \<Rightarrow> nat \<Rightarrow> nat list \<Rightarrow> nat \<Rightarrow> real \<Rightarrow> 'a generator \<Rightarrow> error + ('a encoder \<times> 'a generator)" where
  "MultiLayerGTC_init ext in_features hidden_dims num_head dropout g =
     (if hidden_dims = [] then Inl IndexError
      else let (gtc_layers, g1) =
                 construct_all (new_conv ext)
                   (TransformerConv in_features (hidden_dims ! 0) num_head dropout #
                    map (\<lambda>i. TransformerConv (hidden_dims ! (i - 1) * num_head) (hidden_dims ! i)
                                num_head dropout)
                      [1..<length hidden_dims]) g;
               layerNormList =
                 map (\<lambda>i. LayerNorm ext (hidden_dims ! i * num_head)) [0..<length hidden_dims]
           in Inr (MultiLayerGTC gtc_layers layerNormList, g1))"

fun MultiLayerGCN_forward ::
  "'a externals \<Rightarrow> string \<Rightarrow> 'a conv_layer list \<Rightarrow> (nat \<times> nat) list \<Rightarrow> 'a matrix \<Rightarrow> error + 'a matrix" where
  "MultiLayerGCN_forward ext activation [] edge_index X = Inr X"
| "MultiLayerGCN_forward ext activation (conv # conv_layers) edge_index X =
     (if activation = ''relu'' then
        (case apply_conv ext conv X edge_index of
           Inl e \<Rightarrow> Inl e
         | Inr h \<Rightarrow> MultiLayerGCN_forward ext activation conv_layers edge_index (F_relu ext h))
      else if activation = ''leaky_relu'' then
        (case apply_conv ext conv X edge_index of
           Inl e \<Rightarrow> Inl e
         | Inr h \<Rightarrow> MultiLayerGCN_forward ext activation conv_layers edge_index (F_leaky_relu ext h))
      else if activation = ''gelu'' then
        (case apply_conv ext conv X edge_index of
           Inl e \<Rightarrow> Inl e
         | Inr h \<Rightarrow> MultiLayerGCN_forward ext activation conv_layers edge_index (F_gelu ext h))
      else MultiLayerGCN_forward ext activation conv_layers edge_index X)"

fun MultiLayerGAT_forward ::
  "'a externals \<Rightarrow> string \<Rightarrow> 'a conv_layer list \<Rightarrow> (nat \<times> nat) list \<Rightarrow> 'a matrix \<Rightarrow> error + 'a matrix" where
  "MultiLayerGAT_forward ext activation [] edge_index X = Inr X"
| "MultiLayerGAT_forward ext activation (gat # gat_layers) edge_index X =
     (if activation = ''relu'' then
        (case apply_conv ext gat X edge_index of
           Inl e \<Rightarrow> Inl e
         | Inr h \<Rightarrow> MultiLayerGAT_forward ext activation gat_layers edge_index (F_relu ext h))
      else if activation = ''leaky_relu'' then
        (case apply_conv ext gat X edge_index of
           Inl e \<Rightarrow> Inl e
         | Inr h \<Rightarrow> MultiLayerGAT_forward ext activation gat_layers edge_index (F_leaky_relu ext h))
      else if activation = ''gelu'' then
        (case apply_conv ext gat X edge_index of
           Inl e \<Rightarrow> Inl e
         | Inr h \<Rightarrow> MultiLayerGAT_forward ext activation gat_layers edge_index (F_gelu ext h))
      else MultiLayerGAT_forward ext activation gat_layers edge_index X)"

fun MultiLayerGTC_forward ::
  "'a externals \<Rightarrow> 'a conv_layer list \<Rightarrow> 'a layer_norm list \<Rightarrow> (nat \<times> nat) list \<Rightarrow> 'a matrix \<Rightarrow>
   error + 'a matrix" where
  "MultiLayerGTC_forward ext [] layerNormList edge_index X = Inr X"
| "MultiLayerGTC_forward ext (gtc # gtc_layers) [] edge_index X = Inl IndexError"
| "MultiLayerGTC_forward ext (gtc # gtc_layers) (layer # layerNormList) edge_index X =
     (case apply_conv ext gtc X edge_index of
        Inl e \<Rightarrow> Inl e
      | Inr h \<Rightarrow>
          (case layer_norm_forward ext layer h of
             Inl e \<Rightarrow> Inl e
           | Inr h1 \<Rightarrow> MultiLayerGTC_forward ext gtc_layers layerNormList edge_index h1))"

fun encoder_forward :: "'a externals \<Rightarrow> 'a encoder \<Rightarrow> 'a data \<Rightarrow> error + 'a matrix" where
  "encoder_forward ext (MultiLayerGCN activation conv_layers) d =
     MultiLayerGCN_forward ext activation conv_layers (data_edge_index d) (data_x d)"
| "encoder_forward ext (MultiLayerGAT activation gat_layers) d =
     MultiLayerGAT_forward ext activation gat_layers (data_edge_index d) (data_x d)"
| "encoder_forward ext (MultiLayerGTC gtc_layers layerNormList) d =
     MultiLayerGTC_forward ext gtc_layers layerNormList (data_edge_index d) (data_x d)"

section \<open>Classification head\<close>

text \<open>
  \<open>MLPReadout\<close>, lines 132 to 149.  \<open>F_dropout\<close> in training mode zeroes the entries
  the mask \<open>keep\<close> drops and rescales the others; the mask of the \<open>n\<close>-th call is
  \<open>keep n\<close>.  A freshly constructed module is in training mode.
\<close>

record 'a mlp_readout =
  self_fc_layers :: "'a linear list"
  self_n_layers :: nat
  self_dropout :: real
  self_training :: bool

definition MLPReadout_init ::
  "nat \<Rightarrow> nat \<Rightarrow> real \<Rightarrow> nat \<Rightarrow> 'a generator \<Rightarrow> 'a mlp_readout \<times> 'a generator" where
  "MLPReadout_init input_dim output_dim dropout n_layers g =
     (let (fc_layers, g1) =
            construct_all Linear
              (map (\<lambda>n. (input_dim div 2 ^ n, input_dim div 2 ^ (n + 1))) [0..<n_layers] @
               [(input_dim div 2 ^ n_layers, output_dim)]) g
      in (\<lparr>self_fc_layers = fc_layers, self_n_layers = n_layers, self_dropout = dropout,
            self_training = True\<rparr>, g1))"

definition F_dropout ::
  "'a externals \<Rightarrow> (nat \<Rightarrow> nat \<Rightarrow> bool) \<Rightarrow> real \<Rightarrow> bool \<Rightarrow> 'a matrix \<Rightarrow> 'a matrix" where
  "F_dropout ext keep p training Y =
     (if training
      then \<lparr>cols = cols Y,
            rows = map (\<lambda>(i, r). map (\<lambda>(j, v). if keep i j then fl_rescale ext p v
                                                else fl_const ext 0)
                                     (enumerate 0 r))
                       (enumerate 0 (rows Y))\<rparr>
      else Y)"

fun readout_loop ::
  "'a externals \<Rightarrow> (nat \<Rightarrow> nat \<Rightarrow> nat \<Rightarrow> bool) \<Rightarrow> 'a mlp_readout \<Rightarrow> nat list \<Rightarrow> 'a matrix \<Rightarrow> error + 'a matrix" where
  "readout_loop ext keep self [] Y = Inr Y"
| "readout_loop ext keep self (n # ns) Y =
     (if n < length (self_fc_layers self) then
        (case linear_forward ext (self_fc_layers self ! n)
                (F_dropout ext (keep n) (self_dropout self) (self_training self) Y) of
           Inl e \<Rightarrow> Inl e
         | Inr Y1 \<Rightarrow> readout_loop ext keep self ns (F_gelu ext Y1))
      else Inl IndexError)"

definition MLPReadout_forward ::
  "'a externals \<Rightarrow> (nat \<Rightarrow> nat \<Rightarrow> nat \<Rightarrow> bool) \<Rightarrow> 'a mlp_readout \<Rightarrow> 'a matrix \<Rightarrow> error + 'a matrix" where
  "MLPReadout_forward ext keep self X =
     (case readout_loop ext keep self [0..<self_n_layers self] X of
        Inl e \<Rightarrow> Inl e
      | Inr Y \<Rightarrow>
          if self_n_layers self < length (self_fc_layers self)
          then linear_forward ext (self_fc_layers self ! self_n_layers self) Y
          else Inl IndexError)"

section \<open>The SLADGNN model\<close>

text \<open>
  \<open>SLADGNN\<close>, lines 171 to 208.  The constructor is written as state passing over the
  module's attributes and the random generator: it returns the exception raised, if any,
  the attributes assigned up to that point and the generator as it was left.
  \<open>reshape_last\<close> is \<open>reshape(-1, size(-1))\<close>, which fails on a tensor of width 0.
  \<open>squeeze\<close> drops every axis of size 1, so its result has 0, 1 or 2 dimensions.
  Unpacking the \<open>None\<close> that the balancer may return raises \<open>TypeError\<close>.
\<close>

record 'a tensor3 =
  dim0 :: nat
  dim1 :: nat
  dim2 :: nat
  entries :: "'a list"

definition torch_randn :: "nat \<Rightarrow> nat \<Rightarrow> nat \<Rightarrow> 'a generator \<Rightarrow> 'a tensor3 \<times> 'a generator" where
  "torch_randn a b c g =
     (let (vs, g1) = draw (a * b * c) g
      in (\<lparr>dim0 = a, dim1 = b, dim2 = c, entries = vs\<rparr>, g1))"

definition reshape_last :: "'a tensor3 \<Rightarrow> error + 'a matrix" where
  "reshape_last t =
     (if dim2 t = 0 then Inl RuntimeError
      else Inr \<lparr>cols = dim2 t, rows = chunks (dim0 t * dim1 t) (dim2 t) (entries t)\<rparr>)"

record 'a sladgnn =
  self_GNN :: "'a encoder option"
  self_prototype_layer :: "'a tensor3 option"
  self_mlp :: "'a mlp_readout option"
  self_sigmoid :: bool

definition Module_init :: "'a sladgnn" where
  "Module_init = \<lparr>self_GNN = None, self_prototype_layer = None, self_mlp = None,
                   self_sigmoid = False\<rparr>"

definition SLADGNN_init ::
  "'a externals \<Rightarrow> nat \<Rightarrow> real \<Rightarrow> string \<Rightarrow> string \<Rightarrow> nat \<Rightarrow> nat list \<Rightarrow> nat \<Rightarrow> nat \<Rightarrow> nat \<Rightarrow> nat \<Rightarrow> nat \<Rightarrow>
   'a generator \<Rightarrow> error option \<times> 'a sladgnn \<times> 'a generator" where
  "SLADGNN_init ext gnn_head_num gnn_dropout activation_fuc GNN_type num_features hidden_sizes
       num_classes num_prototypes_per_class mlp_input_dim mlp_hidden_dim mlp_output_dim g =
     (let self = Module_init in
      if GNN_type = ''gcn'' then
        (case MultiLayerGCN_init ext num_features hidden_sizes activation_fuc g of
           Inl e \<Rightarrow> (Some e, self, g)
         | Inr (enc, g1) \<Rightarrow>
             (let self1 = self\<lparr>self_GNN := Some enc\<rparr>;
                  (t, g2) = torch_randn num_classes num_prototypes_per_class (last hidden_sizes) g1;
                  self2 = self1\<lparr>self_prototype_layer := Some t\<rparr>;
                  (m, g3) = MLPReadout_init mlp_input_dim mlp_output_dim (1 / 10) 1 g2;
                  self3 = self2\<lparr>self_mlp := Some m\<rparr>
              in (None, self3\<lparr>self_sigmoid := True\<rparr>, g3)))
      else if GNN_type = ''gat'' then
        (case MultiLayerGAT_init ext num_features hidden_sizes activation_fuc gnn_head_num
                gnn_dropout g of
           Inl e \<Rightarrow> (Some e, self, g)
         | Inr (enc, g1) \<Rightarrow>
             (let self1 = self\<lparr>self_GNN := Some enc\<rparr>;
                  (t, g2) = torch_randn num_classes num_prototypes_per_class
                              (last hidden_sizes * gnn_head_num) g1;
                  self2 = self1\<lparr>self_prototype_layer := Some t\<rparr>;
                  (m, g3) = MLPReadout_init mlp_input_dim mlp_output_dim (1 / 10) 1 g2;
                  self3 = self2\<lparr>self_mlp := Some m\<rparr>
              in (None, self3\<lparr>self_sigmoid := True\<rparr>, g3)))
      else if GNN_type = ''gtc'' then
        (case MultiLayerGTC_init ext num_features hidden_sizes gnn_head_num gnn_dropout g of
           Inl e \<Rightarrow> (Some e, self, g)
         | Inr (enc, g1) \<Rightarrow>
             (let self1 = self\<lparr>self_GNN := Some enc\<rparr>;
                  (t, g2) = torch_randn num_classes num_prototypes_per_class
                              (last hidden_sizes * gnn_head_num) g1;
                  self2 = self1\<lparr>self_prototype_layer := Some t\<rparr>;
                  (m, g3) = MLPReadout_init mlp_input_dim mlp_output_dim (1 / 10) 1 g2;
                  self3 = self2\<lparr>self_mlp := Some m\<rparr>
              in (None, self3\<lparr>self_sigmoid := True\<rparr>, g3)))
      else (Some (ValueError ''not supportive gnn.''), self, g))"

definition nn_Sigmoid :: "'a externals \<Rightarrow> 'a matrix \<Rightarrow> 'a matrix" where
  "nn_Sigmoid ext = map_entries (fl_sigmoid ext)"

datatype 'a tensor = Tensor0 'a | Tensor1 "'a list" | Tensor2 "'a matrix"

definition squeeze :: "'a matrix \<Rightarrow> 'a tensor" where
  "squeeze M =
     (if length (rows M) = 1 \<and> cols M = 1 then Tensor0 (rows M ! 0 ! 0)
      else if cols M = 1 then Tensor1 (map (\<lambda>r. r ! 0) (rows M))
      else if length (rows M) = 1 then Tensor1 (rows M ! 0)
      else Tensor2 M)"

definition to_float :: "'a externals \<Rightarrow> int list \<Rightarrow> 'a list" where
  "to_float ext y = map (\<lambda>l. fl_const ext (real_of_int l)) y"

definition SLADGNN_forward ::
  "'a externals \<Rightarrow> 'a resampler \<Rightarrow> (nat \<Rightarrow> nat \<Rightarrow> nat \<Rightarrow> bool) \<Rightarrow> 'a sladgnn \<Rightarrow> 'a data \<Rightarrow> string \<Rightarrow> int \<Rightarrow> string \<Rightarrow>
   'o \<Rightarrow> error + ('a tensor \<times> 'a list)" where
  "SLADGNN_forward ext fit_resample keep self d mode over_sample_scale_factor sample_method output =
     (case self_GNN self of
        None \<Rightarrow> Inl AttributeError
      | Some enc \<Rightarrow>
     (case encoder_forward ext enc d of
        Inl e \<Rightarrow> Inl e
      | Inr X \<Rightarrow>
     (case (if mode = ''train''
            then (case balance_features_labels fit_resample X (data_y d)
                         over_sample_scale_factor sample_method of
                    Inl e \<Rightarrow> Inl e
                  | Inr None \<Rightarrow> Inl TypeError
                  | Inr (Some (X1, y)) \<Rightarrow> Inr (X1, y))
            else Inr (X, data_y d)) of
        Inl e \<Rightarrow> Inl e
      | Inr (X1, y) \<Rightarrow>
     (case self_prototype_layer self of
        None \<Rightarrow> Inl AttributeError
      | Some t \<Rightarrow>
     (case reshape_last t of
        Inl e \<Rightarrow> Inl e
      | Inr reshaped_prot_layer \<Rightarrow>
     (case calculate_similarity ext X1 reshaped_prot_layer of
        Inl e \<Rightarrow> Inl e
      | Inr S \<Rightarrow>
     (case self_mlp self of
        None \<Rightarrow> Inl AttributeError
      | Some m \<Rightarrow>
     (case MLPReadout_forward ext keep m S of
        Inl e \<Rightarrow> Inl e
      | Inr Z \<Rightarrow>
          if self_sigmoid self
          then Inr (squeeze (nn_Sigmoid ext Z), to_float ext y)
          else Inl AttributeError))))))))"

text \<open>
  The plain two-layer head of the repository.  The model above does not construct it; it
  is the place where a hidden width is used, and its activation dispatch sits after the
  first linear layer instead of around it.
\<close>

record 'a mlp_plain =
  self_activation :: string
  self_fc1 :: "'a linear"
  self_fc2 :: "'a linear"

definition MLP_init :: "nat \<Rightarrow> nat \<Rightarrow> nat \<Rightarrow> string \<Rightarrow> 'a generator \<Rightarrow> 'a mlp_plain \<times> 'a generator" where
  "MLP_init mlp_input_dim mlp_hidden_dim mlp_output_dim activation_fuc g =
     (let (fc1, g1) = Linear (mlp_input_dim, mlp_hidden_dim) g;
          (fc2, g2) = Linear (mlp_hidden_dim, mlp_output_dim) g1
      in (\<lparr>self_activation = activation_fuc, self_fc1 = fc1, self_fc2 = fc2\<rparr>, g2))"

definition MLP_forward :: "'a externals \<Rightarrow> 'a mlp_plain \<Rightarrow> 'a matrix \<Rightarrow> error + 'a matrix" where
  "MLP_forward ext self X =
     (case linear_forward ext (self_fc1 self) X of
        Inl e \<Rightarrow> Inl e
      | Inr H \<Rightarrow>
          linear_forward ext (self_fc2 self)
            (if self_activation self = ''relu'' then F_relu ext H
             else if self_activation self = ''leaky_relu'' then F_leaky_relu ext H
             else if self_activation self = ''gelu'' then F_gelu ext H
             else H))"

text \<open>
  Conditions on a forward pass that the code takes for granted: the library's
  convolutions return one row per node, the resampler returns as many rows as labels, and
  the head ends in a linear layer with a single output unit (the constructor's default
  \<open>mlp_output_dim = 1\<close>).
\<close>

definition node_wise :: "'a externals \<Rightarrow> bool" where
  "node_wise ext =
     (\<forall>c w X e Y. conv_apply ext c w X e = Inr Y \<longrightarrow> length (rows Y) = length (rows X))"

definition paired :: "'a resampler \<Rightarrow> bool" where
  "paired fit_resample =
     (\<forall>a X y F L. fit_resample a X y = Inr (F, L) \<longrightarrow> length (rows F) = length L)"

definition scalar_head :: "'a sladgnn \<Rightarrow> bool" where
  "scalar_head self =
     (case self_mlp self of
        None \<Rightarrow> False
      | Some m \<Rightarrow>
          self_n_layers m < length (self_fc_layers m) \<and>
          out_dim (self_fc_layers m ! self_n_layers m) = 1 \<and>
          length (weight (self_fc_layers m ! self_n_layers m)) = 1 \<and>
          length (bias (self_fc_layers m ! self_n_layers m)) = 1)"

text \<open>
  A small concrete instance for exercising the theorems.  Its entries are real numbers
  and its arithmetic is exact; the Gaussian error linear unit is replaced by the identity.
  The convolutions pass the node features through and allocate no parameters, the
  generator's draws are all 0, and the model is the one-layer GCN model with a single
  class, two prototypes and a scalar head that the constructor builds from them.
\<close>

definition example_library :: "real externals" where
  "example_library =
     \<lparr>fl_const = \<lambda>r. r,
      fl_sub = \<lambda>a b. a - b,
      fl_add = \<lambda>a b. a + b,
      fl_div = \<lambda>a b. a / b,
      fl_norm = \<lambda>v. sqrt (sum_list (map (\<lambda>a. a\<^sup>2) v)),
      fl_square = \<lambda>a. a\<^sup>2,
      fl_log = ln,
      conv_numel = \<lambda>c. 0,
      conv_apply = \<lambda>c w X e. Inr X,
      fl_relu = \<lambda>v. max 0 v,
      fl_leaky_relu = \<lambda>v. if 0 \<le> v then v else v / 100,
      fl_gelu = \<lambda>v. v,
      fl_sigmoid = \<lambda>v. 1 / (1 + exp (- v)),
      fl_affine = \<lambda>x w b. sum_list (map2 (*) x w) + b,
      fl_rescale = \<lambda>p v. v / (1 - p),
      fl_layer_norm = \<lambda>w b r. r\<rparr>"

definition example_model :: "real sladgnn" where
  "example_model =
     fst (snd (SLADGNN_init example_library 1 0 ''relu'' ''gcn'' 1 [1] 1 2 2 0 1 (\<lambda>i. 0)))"

definition example_batch :: "int list \<Rightarrow> real data" where
  "example_batch y =
     \<lparr>data_x = \<lparr>cols = 1, rows = map (\<lambda>l. [real_of_int l]) y\<rparr>, data_edge_index = [], data_y = y\<rparr>"

section \<open>Properties of the class balancer\<close>

lemma filter_via_indices:
  "map (\<lambda>i. xs ! i) (filter (\<lambda>i. P (xs ! i)) [0..<length xs]) = filter P xs"
proof -
  have "filter P xs = filter P (map (\<lambda>i. xs ! i) [0..<length xs])"
    by (simp add: map_nth)
  also have "\<dots> = map (\<lambda>i. xs ! i) (filter (P \<circ> (\<lambda>i. xs ! i)) [0..<length xs])"
    by (simp only: filter_map)
  finally show ?thesis by (simp add: comp_def)
qed

lemma length_where_eq: "length (where_eq labels v) = count_eq labels v"
proof -
  have "length (where_eq labels v) = length (map (\<lambda>i. labels ! i) (where_eq labels v))"
    by simp
  also have "\<dots> = length (filter (\<lambda>l. l = v) labels)"
    unfolding where_eq_def using filter_via_indices [of labels "\<lambda>l. l = v"] by simp
  finally show ?thesis by (simp add: count_eq_def)
qed

lemma where_eq_in_range: "list_all (\<lambda>i. i < length labels) (where_eq labels v)"
  by (simp add: where_eq_def list_all_iff)

lemma gather_where_eq:
  assumes "length rs = length labels"
  shows "map (\<lambda>i. rs ! i) (where_eq labels v) =
         map fst (filter (\<lambda>(r, l). l = v) (zip rs labels))"
proof -
  let ?n = "length labels"
  have z: "zip rs labels = map (\<lambda>i. (rs ! i, labels ! i)) [0..<?n]"
    by (rule nth_equalityI) (simp_all add: assms)
  have "filter (\<lambda>(r, l). l = v) (zip rs labels) =
        map (\<lambda>i. (rs ! i, labels ! i)) (filter (\<lambda>i. labels ! i = v) [0..<?n])"
    by (simp add: z filter_map comp_def)
  then show ?thesis
    by (simp add: where_eq_def comp_def)
qed

lemma repeat_in_range:
  "list_all P xs \<Longrightarrow> list_all P (concat (replicate n xs))"
  by (induction n) simp_all

lemma map_concat_replicate:
  "map f (concat (replicate n xs)) = concat (replicate n (map f xs))"
  by (induction n) simp_all

lemma length_concat_replicate:
  "length (concat (replicate n xs)) = n * length xs"
  by (induction n) simp_all

lemma copy_result:
  assumes len: "length (rows features) = length labels"
    and c2: "2 \<le> count_eq labels (minority_label labels)"
    and s1: "1 \<le> s"
  shows "balance_features_labels fr features labels s ''copy'' =
     Inr (Some (\<lparr>cols = cols features,
                  rows = rows features @
                    concat (replicate (nat s) (minority_rows features labels (minority_label labels)))\<rparr>,
                labels @ replicate (count_eq labels (minority_label labels) * nat s)
                           (minority_label labels)))"
proof -
  let ?m = "minority_label labels"
  let ?idx = "where_eq labels ?m"
  have rng: "list_all (\<lambda>i. i < length (rows features)) (concat (replicate (nat s) ?idx))"
    using where_eq_in_range [of labels ?m] by (simp add: len repeat_in_range)
  have sel: "index_rows features (concat (replicate (nat s) ?idx)) =
     Inr \<lparr>cols = cols features,
          rows = concat (replicate (nat s) (minority_rows features labels ?m))\<rparr>"
    using rng by (simp add: index_rows_def map_concat_replicate gather_where_eq [OF len]
        minority_rows_def)
  have n: "nat (int (count_eq labels ?m) * s) = count_eq labels ?m * nat s"
    using s1 by (simp add: nat_mult_distrib)
  show ?thesis
    using c2 s1 by (simp add: balance_features_labels_def Let_def length_where_eq sel cat0_def n)
qed


lemma length_minority_rows:
  "length (rows X) = length y \<Longrightarrow> length (minority_rows X y cls) = count_eq y cls"
  using gather_where_eq [of "rows X" y cls] length_where_eq [of y cls]
  by (simp add: minority_rows_def del: length_map flip: length_map [of "\<lambda>i. rows X ! i" "where_eq y cls"])

lemma count_eq_append_replicate:
  "count_eq (ys @ replicate k v) v = count_eq ys v + k"
  by (simp add: count_eq_def)

lemma smote_request:
  assumes c2: "2 \<le> count_eq labels (minority_label labels)" and s1: "1 \<le> s"
  shows "balance_features_labels fr features labels s ''SMOTE'' =
     (case fr \<lparr>sampling_strategy =
                  (minority_label labels, int (count_eq labels (minority_label labels)) * s),
                random_state = 42,
                k_neighbors = min (int (count_eq labels (minority_label labels)) - 1) s\<rparr>
             features labels of
        Inl e \<Rightarrow> Inl e
      | Inr (f, l) \<Rightarrow> Inr (Some (f, l)))"
  using c2 s1 by (simp add: balance_features_labels_def Let_def length_where_eq min_def)

lemma smote_result:
  assumes len: "length (rows features) = length labels"
    and w: "0 < cols features"
    and c2: "2 \<le> count_eq labels (minority_label labels)"
    and s1: "1 \<le> s"
  shows "balance_features_labels (SMOTE_fit_resample synth) features labels s ''SMOTE'' =
     Inr (Some (\<lparr>cols = cols features,
                  rows = rows features @
                    map (synth (nat (min (int (count_eq labels (minority_label labels)) - 1) s))
                           (minority_rows features labels (minority_label labels)))
                      [0..<count_eq labels (minority_label labels) * (nat s - 1)]\<rparr>,
                labels @ replicate (count_eq labels (minority_label labels) * (nat s - 1))
                           (minority_label labels)))"
proof -
  let ?c = "count_eq labels (minority_label labels)"
  have "int ?c * s - int ?c = int ?c * (s - 1)"
    by (simp add: algebra_simps)
  then have n: "nat (int ?c * s - int ?c) = ?c * (nat s - 1)"
    using s1 by (simp add: nat_mult_distrib nat_diff_distrib')
  have le: "\<not> int ?c * s < int ?c"
    using s1 by (simp add: mult_le_cancel_left1 not_less)
  show ?thesis
    unfolding smote_request [OF c2 s1]
    using len w le by (simp add: SMOTE_fit_resample_def Let_def n)
qed

text \<open>
  Claim C3.  Whatever the sampling method tag, the balancer hands back exactly the
  feature matrix and label vector it was given (same values, same order) as soon as the
  minority class has at most one member or the scale factor is 0.
\<close>

theorem balance_noop:
  "count_eq labels (minority_label labels) \<le> 1 \<or> s = 0 \<Longrightarrow>
   balance_features_labels fr features labels s method = Inr (Some (features, labels))"
  by (auto simp: balance_features_labels_def Let_def length_where_eq)

theorem balance_noop_witness:
  "balance_features_labels (\<lambda>a X y. Inl RuntimeError) \<lparr>cols = 1, rows = [[1 :: real], [2], [3]]\<rparr> [0, 0, 1] 3 ''SMOTE''
     = Inr (Some (\<lparr>cols = 1, rows = [[1 :: real], [2], [3]]\<rparr>, [0, 0, 1]))"
  using balance_noop [of "[0, 0, 1]" 3 "\<lambda>a X y. Inl RuntimeError" "\<lparr>cols = 1, rows = [[1 :: real], [2], [3]]\<rparr>" "''SMOTE''"]
  by (simp add: count_eq_def minority_label_def)

text \<open>
  Claim C4.  In \<open>copy\<close> mode, with at least two minority members and a scale factor
  of at least 1, the label vector grows by \<open>minority_count * scale_factor\<close> entries
  that all equal the minority label, and the feature matrix keeps the original rows as
  its prefix, unmodified and in order, followed by the gathered minority rows, repeated
  \<open>scale_factor\<close> times.
\<close>

theorem balance_copy_appends:
  assumes "length (rows features) = length labels"
    and "2 \<le> count_eq labels (minority_label labels)"
    and "1 \<le> s"
  shows "\<exists>F L. balance_features_labels fr features labels s ''copy'' = Inr (Some (F, L)) \<and>
    length L = length labels + count_eq labels (minority_label labels) * nat s \<and>
    take (length labels) L = labels \<and>
    drop (length labels) L =
      replicate (count_eq labels (minority_label labels) * nat s) (minority_label labels) \<and>
    cols F = cols features \<and>
    length (rows F) = length (rows features) + count_eq labels (minority_label labels) * nat s \<and>
    take (length (rows features)) (rows F) = rows features \<and>
    drop (length (rows features)) (rows F) =
      concat (replicate (nat s) (minority_rows features labels (minority_label labels)))"
  unfolding copy_result [OF assms]
  by (simp add: length_concat_replicate length_minority_rows [OF assms(1)] mult.commute)

theorem balance_copy_appends_witness:
  "\<exists>F L. balance_features_labels (\<lambda>a X y. Inl RuntimeError)
            \<lparr>cols = 1, rows = [[1 :: real], [2], [3], [4], [5]]\<rparr> [0, 0, 0, 1, 1] 2 ''copy''
          = Inr (Some (F, L)) \<and>
     length L = 9 \<and> take 5 L = [0, 0, 0, 1, 1] \<and> drop 5 L = [1, 1, 1, 1] \<and>
     cols F = 1 \<and> length (rows F) = 9 \<and> take 5 (rows F) = [[1], [2], [3], [4], [5]] \<and>
     drop 5 (rows F) = [[4], [5], [4], [5]]"
  using balance_copy_appends [of "\<lparr>cols = 1, rows = [[1 :: real], [2], [3], [4], [5]]\<rparr>"
      "[0, 0, 0, 1, 1]" 2 "\<lambda>a X y. Inl RuntimeError"]
  by (simp add: count_eq_def minority_label_def minority_rows_def eval_nat_numeral)

text \<open>
  Claim C5, as the code has it.  The minority label is the one of 0 and 1 with strictly
  fewer occurrences; when both occur equally often the code takes label 1, since label 0
  is chosen only when it is strictly rarer.  The claim's tie-break toward label 0 fails
  on the two-element vector \<open>[0, 1]\<close>.
\<close>

theorem minority_label_choice:
  "(count_eq labels 0 < count_eq labels 1 \<longrightarrow> minority_label labels = 0) \<and>
   (count_eq labels 1 < count_eq labels 0 \<longrightarrow> minority_label labels = 1) \<and>
   (count_eq labels 0 = count_eq labels 1 \<longrightarrow> minority_label labels = 1) \<and>
   count_eq labels (minority_label labels) = min (count_eq labels 0) (count_eq labels 1)"
  by (simp add: minority_label_def)

theorem minority_label_choice_witness:
  "minority_label [0, 0, 1] = 1 \<and> minority_label [0, 1, 1] = 0 \<and> minority_label [1, 0] = 1 \<and>
   count_eq [0, 0, 1] (minority_label [0, 0, 1]) = 1"
  using minority_label_choice [of "[0, 0, 1]"] minority_label_choice [of "[0, 1, 1]"]
    minority_label_choice [of "[1, 0]"]
  by (simp add: count_eq_def)

theorem minority_label_tie_counterexample:
  "count_eq [0, 1] 0 = count_eq [0, 1] 1 \<and> minority_label [0, 1] \<noteq> 0"
  by (simp add: count_eq_def minority_label_def)

text \<open>
  Claim C6, as the code has it.  In \<open>SMOTE\<close> mode, with at least two minority members
  and a scale factor of at least 1, the balancer returns what the resampler returns when
  asked for the minority class to have \<open>minority_count * scale_factor\<close> samples with
  \<open>k = min (minority_count - 1) scale_factor\<close> neighbours and random state 42.  Under
  the library's contract that figure is the class size after resampling, so
  \<open>minority_count * (scale_factor - 1)\<close> synthetic samples are appended below the
  unchanged originals, with as many minority labels.  The claim's count of
  \<open>minority_count * scale_factor\<close> new samples fails for two minority members and
  scale factor 2, where two samples are synthesised, not four.
\<close>

theorem balance_smote_target:
  assumes "length (rows features) = length labels"
    and "0 < cols features"
    and "2 \<le> count_eq labels (minority_label labels)"
    and "1 \<le> s"
  shows "balance_features_labels fr features labels s ''SMOTE'' =
      (case fr \<lparr>sampling_strategy =
                   (minority_label labels, int (count_eq labels (minority_label labels)) * s),
                 random_state = 42,
                 k_neighbors = min (int (count_eq labels (minority_label labels)) - 1) s\<rparr>
              features labels of
         Inl e \<Rightarrow> Inl e
       | Inr (f, l) \<Rightarrow> Inr (Some (f, l))) \<and>
    (\<exists>F L. balance_features_labels (SMOTE_fit_resample synth) features labels s ''SMOTE''
             = Inr (Some (F, L)) \<and>
       length L = length labels + count_eq labels (minority_label labels) * (nat s - 1) \<and>
       take (length labels) L = labels \<and>
       drop (length labels) L =
         replicate (count_eq labels (minority_label labels) * (nat s - 1)) (minority_label labels) \<and>
       count_eq L (minority_label labels) = count_eq labels (minority_label labels) * nat s \<and>
       cols F = cols features \<and>
       length (rows F) = length L \<and>
       take (length (rows features)) (rows F) = rows features)"
proof -
  let ?c = "count_eq labels (minority_label labels)"
  have "?c + ?c * (nat s - 1) = ?c * nat s"
    using assms(4) by (cases "nat s") simp_all
  then show ?thesis
    unfolding smote_result [OF assms] using smote_request [OF assms(3,4), of fr features]
    by (simp add: count_eq_append_replicate assms(1))
qed

theorem balance_smote_target_witness:
  "balance_features_labels (SMOTE_fit_resample (\<lambda>k minority j. [real k]))
      \<lparr>cols = 1, rows = [[1 :: real], [2], [3], [4], [5]]\<rparr> [0, 0, 0, 1, 1] 3 ''SMOTE'' =
   Inr (Some (\<lparr>cols = 1, rows = [[1 :: real], [2], [3], [4], [5], [1], [1], [1], [1]]\<rparr>,
              [0, 0, 0, 1, 1, 1, 1, 1, 1])) \<and>
   (\<exists>F L. balance_features_labels (SMOTE_fit_resample (\<lambda>k minority j. [real k]))
             \<lparr>cols = 1, rows = [[1 :: real], [2], [3], [4], [5]]\<rparr> [0, 0, 0, 1, 1] 3 ''SMOTE''
           = Inr (Some (F, L)) \<and>
      length L = 9 \<and> take 5 L = [0, 0, 0, 1, 1] \<and> drop 5 L = [1, 1, 1, 1] \<and>
      count_eq L 1 = 6 \<and> cols F = 1 \<and> length (rows F) = length L \<and>
      take 5 (rows F) = [[1], [2], [3], [4], [5]])"
  using balance_smote_target [of "\<lparr>cols = 1, rows = [[1 :: real], [2], [3], [4], [5]]\<rparr>"
      "[0, 0, 0, 1, 1]" 3 "SMOTE_fit_resample (\<lambda>k minority j. [real k])"
      "\<lambda>k minority j. [real k]"]
  by (simp add: count_eq_def minority_label_def minority_rows_def SMOTE_fit_resample_def
      eval_nat_numeral upt_rec)

theorem balance_smote_counterexample:
  "balance_features_labels (SMOTE_fit_resample (\<lambda>k minority j. [0]))
     \<lparr>cols = 1, rows = [[1 :: real], [2], [3], [4], [5]]\<rparr> [0, 0, 0, 1, 1] 2 ''SMOTE''
   = Inr (Some (\<lparr>cols = 1, rows = [[1 :: real], [2], [3], [4], [5], [0], [0]]\<rparr>,
                [0, 0, 0, 1, 1, 1, 1]))"
  by (simp add: balance_features_labels_def SMOTE_fit_resample_def where_eq_def count_eq_def
      minority_label_def Let_def upt_rec numeral_2_eq_2)

text \<open>
  Claim C9.  With a qualifying minority class and a scale factor of at least 1, a
  sampling method tag other than \<open>SMOTE\<close> and \<open>copy\<close> makes the balancer fall off
  the end of its body: it returns Python's \<open>None\<close> and raises nothing.
\<close>

theorem balance_other_method_returns_none:
  "2 \<le> count_eq labels (minority_label labels) \<Longrightarrow> 1 \<le> s \<Longrightarrow>
   method \<noteq> ''SMOTE'' \<Longrightarrow> method \<noteq> ''copy'' \<Longrightarrow>
   balance_features_labels fr features labels s method = Inr None"
  by (simp add: balance_features_labels_def Let_def length_where_eq)

theorem balance_other_method_returns_none_witness:
  "balance_features_labels (\<lambda>a X y. Inl RuntimeError)
     \<lparr>cols = 1, rows = [[1 :: real], [2], [3], [4], [5]]\<rparr> [0, 0, 0, 1, 1] 2 ''mixup'' = Inr None"
  using balance_other_method_returns_none [of "[0, 0, 0, 1, 1]" 2 "''mixup''"
      "\<lambda>a X y. Inl RuntimeError" "\<lparr>cols = 1, rows = [[1 :: real], [2], [3], [4], [5]]\<rparr>"]
  by (simp add: count_eq_def minority_label_def)

section \<open>Properties of the encoders\<close>

lemma GCN_unknown_activation:
  "activation \<noteq> ''relu'' \<Longrightarrow> activation \<noteq> ''leaky_relu'' \<Longrightarrow> activation \<noteq> ''gelu'' \<Longrightarrow>
   MultiLayerGCN_forward ext activation conv_layers edge_index X = Inr X"
  by (induction conv_layers) simp_all

lemma GAT_unknown_activation:
  "activation \<noteq> ''relu'' \<Longrightarrow> activation \<noteq> ''leaky_relu'' \<Longrightarrow> activation \<noteq> ''gelu'' \<Longrightarrow>
   MultiLayerGAT_forward ext activation gat_layers edge_index X = Inr X"
  by (induction gat_layers) simp_all

lemma MLP_unknown_activation:
  "self_activation self \<noteq> ''relu'' \<Longrightarrow> self_activation self \<noteq> ''leaky_relu'' \<Longrightarrow>
   self_activation self \<noteq> ''gelu'' \<Longrightarrow>
   MLP_forward ext self X =
     (case linear_forward ext (self_fc1 self) X of
        Inl e \<Rightarrow> Inl e
      | Inr H \<Rightarrow> linear_forward ext (self_fc2 self) H)"
  by (simp add: MLP_forward_def split: sum.split)

text \<open>
  Claim C7, evaluated on the code.  With an activation name other than \<open>relu\<close>,
  \<open>leaky_relu\<close> and \<open>gelu\<close> no branch of the dispatch is taken, and each
  convolution is called inside a branch: the GCN and the GAT encoder then return the
  input node features unchanged, with no convolution applied.  The plain head applies
  its linear layers before and after the dispatch, so there the same name only drops the
  activation (lemma \<open>MLP_unknown_activation\<close>).
\<close>

theorem unknown_activation_skips_convolutions:
  assumes "activation \<noteq> ''relu''" and "activation \<noteq> ''leaky_relu''" and "activation \<noteq> ''gelu''"
  shows "encoder_forward ext (MultiLayerGCN activation conv_layers) d = Inr (data_x d) \<and>
         encoder_forward ext (MultiLayerGAT activation gat_layers) d = Inr (data_x d)"
  using assms by (simp add: GCN_unknown_activation GAT_unknown_activation)

theorem unknown_activation_skips_convolutions_witness:
  "encoder_forward (example_library\<lparr>conv_apply := \<lambda>c w X e. Inl RuntimeError\<rparr>)
      (MultiLayerGCN ''tanh'' [\<lparr>conv_call = GCNConv 2 3, conv_params = []\<rparr>])
      \<lparr>data_x = \<lparr>cols = 2, rows = [[1, 2]]\<rparr>, data_edge_index = [(0, 0)], data_y = [0]\<rparr>
    = Inr \<lparr>cols = 2, rows = [[1, 2]]\<rparr> \<and>
   encoder_forward (example_library\<lparr>conv_apply := \<lambda>c w X e. Inl RuntimeError\<rparr>)
      (MultiLayerGAT ''tanh'' [\<lparr>conv_call = GATConv 2 3 4 (1 / 5), conv_params = []\<rparr>])
      \<lparr>data_x = \<lparr>cols = 2, rows = [[1, 2]]\<rparr>, data_edge_index = [(0, 0)], data_y = [0]\<rparr>
    = Inr \<lparr>cols = 2, rows = [[1, 2]]\<rparr>"
  using unknown_activation_skips_convolutions [of "''tanh''"
      "example_library\<lparr>conv_apply := \<lambda>c w X e. Inl RuntimeError\<rparr>"
      "[\<lparr>conv_call = GCNConv 2 3, conv_params = []\<rparr>]"
      "\<lparr>data_x = \<lparr>cols = 2, rows = [[1, 2]]\<rparr>, data_edge_index = [(0, 0)], data_y = [0]\<rparr>"
      "[\<lparr>conv_call = GATConv 2 3 4 (1 / 5), conv_params = []\<rparr>]"]
  by simp

section \<open>Properties of the model constructor\<close>

text \<open>
  Claim C8.  An encoder type tag other than \<open>gcn\<close>, \<open>gat\<close> and \<open>gtc\<close> ends
  construction with the configuration error \<open>ValueError\<close>: the module is left as the
  base constructor made it, without encoder, prototype bank, head or sigmoid, the random
  generator is untouched, so no parameter tensor was allocated, and a forward pass on what
  is left fails for want of an encoder.
\<close>

theorem unsupported_GNN_type_raises:
  assumes "GNN_type \<noteq> ''gcn''" and "GNN_type \<noteq> ''gat''" and "GNN_type \<noteq> ''gtc''"
  shows "SLADGNN_init ext gnn_head_num gnn_dropout activation_fuc GNN_type num_features
           hidden_sizes num_classes num_prototypes_per_class mlp_input_dim mlp_hidden_dim
           mlp_output_dim g =
         (Some (ValueError ''not supportive gnn.''),
          \<lparr>self_GNN = None, self_prototype_layer = None, self_mlp = None, self_sigmoid = False\<rparr>,
          g) \<and>
         SLADGNN_forward ext fit_resample keep
           (fst (snd (SLADGNN_init ext gnn_head_num gnn_dropout activation_fuc GNN_type
              num_features hidden_sizes num_classes num_prototypes_per_class mlp_input_dim
              mlp_hidden_dim mlp_output_dim g)))
           d mode over_sample_scale_factor sample_method output = Inl AttributeError"
  using assms by (simp add: SLADGNN_init_def Module_init_def SLADGNN_forward_def)

theorem unsupported_GNN_type_raises_witness:
  "SLADGNN_init example_library
     4 (1 / 5) ''relu'' ''sage'' 8 [16, 16] 2 3 6 32 1 (\<lambda>i. real i) =
   (Some (ValueError ''not supportive gnn.''),
    \<lparr>self_GNN = None, self_prototype_layer = None, self_mlp = None, self_sigmoid = False\<rparr>,
    \<lambda>i. real i) \<and>
   SLADGNN_forward example_library
     (\<lambda>a X y. Inl RuntimeError) (\<lambda>n i j. True)
     (fst (snd (SLADGNN_init example_library
        4 (1 / 5) ''relu'' ''sage'' 8 [16, 16] 2 3 6 32 1 (\<lambda>i. real i))))
     \<lparr>data_x = \<lparr>cols = 8, rows = []\<rparr>, data_edge_index = [], data_y = []\<rparr>
     ''eval'' 0 ''copy'' () = Inl AttributeError"
  using unsupported_GNN_type_raises [of "''sage''"
      example_library
      4 "1 / 5" "''relu''" 8 "[16, 16]" 2 3 6 32 1 "\<lambda>i. real i"
      "\<lambda>a X y. Inl RuntimeError" "\<lambda>n i j. True"
      "\<lparr>data_x = \<lparr>cols = 8, rows = []\<rparr>, data_edge_index = [], data_y = []\<rparr>"
      "''eval''" 0 "''copy''" "()"]
  by (elim meta_impE conjE) simp_all

lemma SLADGNN_init_readout:
  assumes "SLADGNN_init ext gnn_head_num gnn_dropout activation_fuc GNN_type num_features
     hidden_sizes num_classes num_prototypes_per_class mlp_input_dim mlp_hidden_dim
     mlp_output_dim g = (None, self, g')"
  shows "\<exists>enc t g2. self_GNN self = Some enc \<and> self_prototype_layer self = Some t \<and>
           self_mlp self = Some (fst (MLPReadout_init mlp_input_dim mlp_output_dim (1 / 10) 1 g2)) \<and>
           self_sigmoid self"
  using assms
  by (auto simp: SLADGNN_init_def Let_def Module_init_def split: if_splits sum.splits prod.splits;
      metis fst_conv)

lemma SLADGNN_init_succeeds:
  assumes "GNN_type = ''gcn'' \<or> GNN_type = ''gat'' \<or> GNN_type = ''gtc''"
    and "hidden_sizes \<noteq> []"
  shows "fst (SLADGNN_init ext gnn_head_num gnn_dropout activation_fuc GNN_type num_features
     hidden_sizes num_classes num_prototypes_per_class mlp_input_dim mlp_hidden_dim
     mlp_output_dim g) = None"
  using assms
  by (auto simp: SLADGNN_init_def MultiLayerGCN_init_def MultiLayerGAT_init_def
      MultiLayerGTC_init_def Let_def split_beta)

text \<open>
  Claim C10.  The parameter \<open>mlp_hidden_dim\<close> is accepted and never read: two
  constructions that differ only in it end in the same error or the same model with the
  same generator state, every forward pass of the two models agrees, and a successfully
  constructed model carries the readout \<open>MLPReadout(mlp_input_dim, mlp_output_dim)\<close>
  with its default dropout rate and its single hidden layer.
\<close>

theorem mlp_hidden_dim_unused:
  "SLADGNN_init ext gnn_head_num gnn_dropout activation_fuc GNN_type num_features hidden_sizes
     num_classes num_prototypes_per_class mlp_input_dim mlp_hidden_dim mlp_output_dim g =
   SLADGNN_init ext gnn_head_num gnn_dropout activation_fuc GNN_type num_features hidden_sizes
     num_classes num_prototypes_per_class mlp_input_dim mlp_hidden_dim' mlp_output_dim g \<and>
   SLADGNN_forward ext fit_resample keep
     (fst (snd (SLADGNN_init ext gnn_head_num gnn_dropout activation_fuc GNN_type num_features
        hidden_sizes num_classes num_prototypes_per_class mlp_input_dim mlp_hidden_dim
        mlp_output_dim g)))
     d mode over_sample_scale_factor sample_method output =
   SLADGNN_forward ext fit_resample keep
     (fst (snd (SLADGNN_init ext gnn_head_num gnn_dropout activation_fuc GNN_type num_features
        hidden_sizes num_classes num_prototypes_per_class mlp_input_dim mlp_hidden_dim'
        mlp_output_dim g)))
     d mode over_sample_scale_factor sample_method output \<and>
   (fst (SLADGNN_init ext gnn_head_num gnn_dropout activation_fuc GNN_type num_features
        hidden_sizes num_classes num_prototypes_per_class mlp_input_dim mlp_hidden_dim
        mlp_output_dim g) = None \<longrightarrow>
    (\<exists>g2. self_mlp (fst (snd (SLADGNN_init ext gnn_head_num gnn_dropout activation_fuc GNN_type
        num_features hidden_sizes num_classes num_prototypes_per_class mlp_input_dim
        mlp_hidden_dim mlp_output_dim g))) =
      Some (fst (MLPReadout_init mlp_input_dim mlp_output_dim (1 / 10) 1 g2))))"
proof -
  let ?init = "\<lambda>h. SLADGNN_init ext gnn_head_num gnn_dropout activation_fuc GNN_type num_features
     hidden_sizes num_classes num_prototypes_per_class mlp_input_dim h mlp_output_dim g"
  have same: "?init mlp_hidden_dim = ?init mlp_hidden_dim'"
    by (simp add: SLADGNN_init_def)
  have readout: "\<exists>g2. self_mlp (fst (snd (?init mlp_hidden_dim))) =
      Some (fst (MLPReadout_init mlp_input_dim mlp_output_dim (1 / 10) 1 g2))"
    if ok: "fst (?init mlp_hidden_dim) = None"
  proof -
    obtain self g' where "?init mlp_hidden_dim = (None, self, g')"
      using ok by (cases "?init mlp_hidden_dim") auto
    then show ?thesis
      using SLADGNN_init_readout [of ext gnn_head_num gnn_dropout activation_fuc GNN_type
          num_features hidden_sizes num_classes num_prototypes_per_class mlp_input_dim
          mlp_hidden_dim mlp_output_dim g self g']
      by auto
  qed
  show ?thesis
    using readout by (simp only: same [symmetric]) simp
qed

theorem mlp_hidden_dim_unused_witness:
  "SLADGNN_init example_library
     4 (1 / 5) ''relu'' ''gcn'' 8 [16, 16] 2 3 6 32 1 (\<lambda>i. real i) =
   SLADGNN_init example_library
     4 (1 / 5) ''relu'' ''gcn'' 8 [16, 16] 2 3 6 7 1 (\<lambda>i. real i) \<and>
   (\<exists>g2. self_mlp (fst (snd (SLADGNN_init example_library
        4 (1 / 5) ''relu'' ''gcn'' 8 [16, 16] 2 3 6 32 1 (\<lambda>i. real i)))) =
      Some (fst (MLPReadout_init 6 1 (1 / 10) 1 g2)))"
proof -
  have ok: "fst (SLADGNN_init example_library
        4 (1 / 5) ''relu'' ''gcn'' 8 [16, 16] 2 3 6 32 1 (\<lambda>i. real i)) = None"
    by (rule SLADGNN_init_succeeds) simp_all
  show ?thesis
    using ok mlp_hidden_dim_unused [of
      example_library
      4 "1 / 5" "''relu''" "''gcn''" 8 "[16, 16]" 2 3 6 32 1 "\<lambda>i. real i" 7
      "\<lambda>a X y. Inl RuntimeError" "\<lambda>n i j. True"
      "\<lparr>data_x = \<lparr>cols = 8, rows = []\<rparr>, data_edge_index = [], data_y = []\<rparr>"
      "''eval''" 0 "''copy''" "()"]
    by blast
qed

section \<open>Properties of the forward pass\<close>

lemma rows_map_entries [simp]: "length (rows (map_entries f M)) = length (rows M)"
  and cols_map_entries [simp]: "cols (map_entries f M) = cols M"
  by (simp_all add: map_entries_def)

lemma rows_activations [simp]:
  "length (rows (F_relu ext M)) = length (rows M)"
  "length (rows (F_leaky_relu ext M)) = length (rows M)"
  "length (rows (F_gelu ext M)) = length (rows M)"
  by (simp_all add: F_relu_def F_leaky_relu_def F_gelu_def)

lemma apply_conv_rows:
  "node_wise ext \<Longrightarrow> apply_conv ext l X e = Inr Y \<Longrightarrow> length (rows Y) = length (rows X)"
  unfolding node_wise_def apply_conv_def by blast

lemma GCN_forward_step:
  assumes "node_wise ext"
    and "MultiLayerGCN_forward ext activation (conv # conv_layers) e X = Inr Y"
  shows "\<exists>X1. length (rows X1) = length (rows X) \<and>
              MultiLayerGCN_forward ext activation conv_layers e X1 = Inr Y"
proof (cases "activation = ''relu'' \<or> activation = ''leaky_relu'' \<or> activation = ''gelu''")
  case True
  then obtain h where h: "apply_conv ext conv X e = Inr h"
    using assms(2) by (cases "apply_conv ext conv X e") auto
  have "length (rows h) = length (rows X)"
    by (rule apply_conv_rows [OF assms(1) h])
  then show ?thesis
    using True assms(2) h
    by (auto split: if_splits intro: exI [of _ "F_relu ext h"] exI [of _ "F_leaky_relu ext h"]
        exI [of _ "F_gelu ext h"])
next
  case False
  then show ?thesis
    using assms(2) by (intro exI [of _ X]) simp
qed

lemma GCN_forward_rows:
  "node_wise ext \<Longrightarrow> MultiLayerGCN_forward ext activation conv_layers e X = Inr Y \<Longrightarrow>
   length (rows Y) = length (rows X)"
proof (induction conv_layers arbitrary: X)
  case Nil
  then show ?case by simp
next
  case (Cons conv conv_layers)
  from GCN_forward_step [OF Cons.prems] obtain X1
    where "length (rows X1) = length (rows X)"
      and "MultiLayerGCN_forward ext activation conv_layers e X1 = Inr Y"
    by blast
  then show ?case
    using Cons.IH [OF Cons.prems(1), of X1] by simp
qed

lemma GAT_forward_step:
  assumes "node_wise ext"
    and "MultiLayerGAT_forward ext activation (gat # gat_layers) e X = Inr Y"
  shows "\<exists>X1. length (rows X1) = length (rows X) \<and>
              MultiLayerGAT_forward ext activation gat_layers e X1 = Inr Y"
proof (cases "activation = ''relu'' \<or> activation = ''leaky_relu'' \<or> activation = ''gelu''")
  case True
  then obtain h where h: "apply_conv ext gat X e = Inr h"
    using assms(2) by (cases "apply_conv ext gat X e") auto
  have "length (rows h) = length (rows X)"
    by (rule apply_conv_rows [OF assms(1) h])
  then show ?thesis
    using True assms(2) h
    by (auto split: if_splits intro: exI [of _ "F_relu ext h"] exI [of _ "F_leaky_relu ext h"]
        exI [of _ "F_gelu ext h"])
next
  case False
  then show ?thesis
    using assms(2) by (intro exI [of _ X]) simp
qed

lemma GAT_forward_rows:
  "node_wise ext \<Longrightarrow> MultiLayerGAT_forward ext activation gat_layers e X = Inr Y \<Longrightarrow>
   length (rows Y) = length (rows X)"
proof (induction gat_layers arbitrary: X)
  case Nil
  then show ?case by simp
next
  case (Cons gat gat_layers)
  from GAT_forward_step [OF Cons.prems] obtain X1
    where "length (rows X1) = length (rows X)"
      and "MultiLayerGAT_forward ext activation gat_layers e X1 = Inr Y"
    by blast
  then show ?case
    using Cons.IH [OF Cons.prems(1), of X1] by simp
qed

lemma layer_norm_forward_rows:
  "layer_norm_forward ext layer X = Inr Y \<Longrightarrow> length (rows Y) = length (rows X)"
  by (auto simp: layer_norm_forward_def split: if_splits)

lemma GTC_forward_rows:
  "node_wise ext \<Longrightarrow> MultiLayerGTC_forward ext gtc_layers layerNormList e X = Inr Y \<Longrightarrow>
   length (rows Y) = length (rows X)"
proof (induction ext gtc_layers layerNormList e X rule: MultiLayerGTC_forward.induct)
  case (1 ext layerNormList edge_index X)
  then show ?case by simp
next
  case (2 ext gtc gtc_layers edge_index X)
  then show ?case by simp
next
  case (3 ext gtc gtc_layers layer layerNormList edge_index X)
  from "3.prems"(2) obtain h h1 where h: "apply_conv ext gtc X edge_index = Inr h"
    and h1: "layer_norm_forward ext layer h = Inr h1"
    and rest: "MultiLayerGTC_forward ext gtc_layers layerNormList edge_index h1 = Inr Y"
    by (auto split: sum.splits)
  have "length (rows Y) = length (rows h1)"
    by (rule "3.IH" [OF h h1 "3.prems"(1) rest])
  then show ?case
    using apply_conv_rows [OF "3.prems"(1) h] layer_norm_forward_rows [OF h1] by simp
qed

lemma encoder_forward_rows:
  "node_wise ext \<Longrightarrow> encoder_forward ext enc d = Inr Y \<Longrightarrow>
   length (rows Y) = length (rows (data_x d))"
  by (cases enc) (auto dest: GCN_forward_rows GAT_forward_rows GTC_forward_rows)


lemma balance_paired:
  assumes "paired fit_resample" and "length (rows X) = length y"
    and "balance_features_labels fit_resample X y s method = Inr (Some (F, L))"
  shows "length (rows F) = length L"
proof -
  let ?m = "minority_label y"
  let ?idx = "where_eq y ?m"
  consider (noop) "length ?idx \<le> 1 \<or> s = 0"
    | (smote) "\<not> (length ?idx \<le> 1 \<or> s = 0)" "method = ''SMOTE''"
    | (copy) "\<not> (length ?idx \<le> 1 \<or> s = 0)" "method \<noteq> ''SMOTE''" "method = ''copy''"
    | (other) "\<not> (length ?idx \<le> 1 \<or> s = 0)" "method \<noteq> ''SMOTE''" "method \<noteq> ''copy''"
    by blast
  then show ?thesis
  proof cases
    case noop
    then show ?thesis
      using assms(2,3) by (auto simp: balance_features_labels_def Let_def)
  next
    case smote
    then show ?thesis
      using assms(1,3) unfolding paired_def
      by (auto simp: balance_features_labels_def Let_def split: sum.splits)
  next
    case copy
    then have "0 \<le> s"
      using assms(3) by (auto simp: balance_features_labels_def Let_def split: if_splits)
    then have "nat (int (length ?idx) * s) = nat s * length ?idx"
      by (simp add: nat_mult_distrib mult.commute)
    then show ?thesis
      using copy assms(2,3)
      by (auto simp: balance_features_labels_def Let_def index_rows_def cat0_def
          length_concat_replicate split: if_splits sum.splits)
  next
    case other
    then show ?thesis
      using assms(3) by (simp add: balance_features_labels_def Let_def)
  qed
qed

lemma calculate_similarity_rows:
  "calculate_similarity ext X P = Inr S \<Longrightarrow> length (rows S) = length (rows X)"
  by (auto simp: calculate_similarity_def Let_def split: sum.splits)

lemma rows_F_dropout [simp]:
  "length (rows (F_dropout ext keep p training Y)) = length (rows Y)"
  by (simp add: F_dropout_def)

lemma linear_forward_rows:
  "linear_forward ext l X = Inr Y \<Longrightarrow> length (rows Y) = length (rows X)"
  by (auto simp: linear_forward_def split: if_splits)

lemma readout_loop_rows:
  "readout_loop ext keep self ns X = Inr Y \<Longrightarrow> length (rows Y) = length (rows X)"
proof (induction ns arbitrary: X)
  case Nil
  then show ?case by simp
next
  case (Cons n ns)
  from Cons.prems obtain Y1
    where y1: "linear_forward ext (self_fc_layers self ! n)
                 (F_dropout ext (keep n) (self_dropout self) (self_training self) X) = Inr Y1"
      and rest: "readout_loop ext keep self ns (F_gelu ext Y1) = Inr Y"
    by (auto split: if_splits sum.splits)
  show ?case
    using Cons.IH [OF rest] linear_forward_rows [OF y1] by simp
qed

lemma MLPReadout_forward_shape:
  assumes "MLPReadout_forward ext keep m S = Inr Z"
    and "length (weight (self_fc_layers m ! self_n_layers m)) = 1"
    and "length (bias (self_fc_layers m ! self_n_layers m)) = 1"
  shows "length (rows Z) = length (rows S) \<and>
         cols Z = out_dim (self_fc_layers m ! self_n_layers m) \<and>
         list_all (\<lambda>r. length r = 1) (rows Z)"
proof -
  from assms(1) obtain Y
    where loop: "readout_loop ext keep m [0..<self_n_layers m] S = Inr Y"
      and fin: "linear_forward ext (self_fc_layers m ! self_n_layers m) Y = Inr Z"
    by (auto simp: MLPReadout_forward_def split: sum.splits if_splits)
  have "list_all (\<lambda>r. length r = 1) (rows Z)"
    using fin assms(2,3) by (auto simp: linear_forward_def list_all_iff split: if_splits)
  moreover have "cols Z = out_dim (self_fc_layers m ! self_n_layers m)"
    using fin by (auto simp: linear_forward_def split: if_splits)
  ultimately show ?thesis
    using readout_loop_rows [OF loop] linear_forward_rows [OF fin] by simp
qed

lemma squeeze_column:
  assumes "cols Z = 1" and "list_all (\<lambda>r. length r = 1) (rows Z)"
  shows "(length (rows Z) \<noteq> 1 \<longrightarrow>
            (\<exists>ps. squeeze (nn_Sigmoid ext Z) = Tensor1 ps \<and> length ps = length (rows Z))) \<and>
         (length (rows Z) = 1 \<longrightarrow> (\<exists>p. squeeze (nn_Sigmoid ext Z) = Tensor0 p))"
  using assms(1) by (simp add: squeeze_def nn_Sigmoid_def)

lemma SLADGNN_forward_steps:
  assumes "SLADGNN_forward ext fit_resample keep self d mode s sample_method output =
             Inr (probs, labels)"
  obtains enc X X1 y P S m Z where
    "self_GNN self = Some enc" and "encoder_forward ext enc d = Inr X"
    and "mode = ''train'' \<Longrightarrow>
           balance_features_labels fit_resample X (data_y d) s sample_method = Inr (Some (X1, y))"
    and "mode \<noteq> ''train'' \<Longrightarrow> X1 = X \<and> y = data_y d"
    and "calculate_similarity ext X1 P = Inr S"
    and "self_mlp self = Some m" and "MLPReadout_forward ext keep m S = Inr Z"
    and "probs = squeeze (nn_Sigmoid ext Z)" and "labels = to_float ext y"
  using assms unfolding SLADGNN_forward_def
  by (auto split: option.splits sum.splits if_splits prod.splits)


text \<open>
  Claim C1, evaluated on the code.  Take a forward pass that returns, on a batch with
  one feature row per label, with convolutions that keep one row per node, a resampler
  that returns as many rows as labels, and a head with one output unit; nothing is
  assumed about the arithmetic.  The labels come back as a vector of floating-point
  entries, in eval mode the input labels cast entry by entry.  When their number is not
  1, the probabilities are a vector of that same length; in train mode with method
  \<open>copy\<close>, scale factor 2 and ten labels of which eight are 0 and two are 1, both have
  length 14.  When exactly one row reaches the head, \<open>squeeze()\<close> removes both axes
  of the \<open>1 \<times> 1\<close> result: the probabilities are a 0-dimensional scalar beside a label
  vector of length 1, where the claim has two vectors of the same length.
\<close>

theorem SLADGNN_forward_returned_pair:
  assumes "node_wise ext" and "paired fit_resample" and "scalar_head self"
    and "length (rows (data_x d)) = length (data_y d)"
    and "SLADGNN_forward ext fit_resample keep self d mode s sample_method output =
           Inr (probs, labels)"
  shows "(length labels \<noteq> 1 \<longrightarrow> (\<exists>ps. probs = Tensor1 ps \<and> length ps = length labels)) \<and>
         (length labels = 1 \<longrightarrow> (\<exists>p. probs = Tensor0 p)) \<and>
         (mode \<noteq> ''train'' \<longrightarrow> labels = to_float ext (data_y d)) \<and>
         (mode = ''train'' \<and> sample_method = ''copy'' \<and> s = 2 \<and> length (data_y d) = 10 \<and>
          count_eq (data_y d) 0 = 8 \<and> count_eq (data_y d) 1 = 2 \<longrightarrow>
            length labels = 14 \<and> (\<exists>ps. probs = Tensor1 ps \<and> length ps = 14))"
proof (rule SLADGNN_forward_steps [OF assms(5)])
  fix enc X X1 y P S m Z
  assume enc: "self_GNN self = Some enc" "encoder_forward ext enc d = Inr X"
    and train: "mode = ''train'' \<Longrightarrow>
           balance_features_labels fit_resample X (data_y d) s sample_method = Inr (Some (X1, y))"
    and eval: "mode \<noteq> ''train'' \<Longrightarrow> X1 = X \<and> y = data_y d"
    and sim: "calculate_similarity ext X1 P = Inr S"
    and head: "self_mlp self = Some m" "MLPReadout_forward ext keep m S = Inr Z"
    and out: "probs = squeeze (nn_Sigmoid ext Z)" "labels = to_float ext y"
  have X: "length (rows X) = length (data_y d)"
    using encoder_forward_rows [OF assms(1) enc(2)] assms(4) by simp
  have X1: "length (rows X1) = length y"
  proof (cases "mode = ''train''")
    case True
    then show ?thesis
      using balance_paired [OF assms(2) X train] by simp
  next
    case False
    then show ?thesis
      using eval X by simp
  qed
  have m: "out_dim (self_fc_layers m ! self_n_layers m) = 1"
    "length (weight (self_fc_layers m ! self_n_layers m)) = 1"
    "length (bias (self_fc_layers m ! self_n_layers m)) = 1"
    using assms(3) head(1) by (simp_all add: scalar_head_def)
  have Z: "length (rows Z) = length labels" "cols Z = 1" "list_all (\<lambda>r. length r = 1) (rows Z)"
    using MLPReadout_forward_shape [OF head(2) m(2,3)] calculate_similarity_rows [OF sim] X1 m(1)
      out(2)
    by (simp_all add: to_float_def)
  have shape: "(length labels \<noteq> 1 \<longrightarrow> (\<exists>ps. probs = Tensor1 ps \<and> length ps = length labels)) \<and>
         (length labels = 1 \<longrightarrow> (\<exists>p. probs = Tensor0 p))"
    using squeeze_column [OF Z(2,3), of ext] unfolding Z(1) out(1) .
  have labels_eval: "mode \<noteq> ''train'' \<longrightarrow> labels = to_float ext (data_y d)"
    using eval out(2) by simp
  have scenario: "length labels = 14"
    if "mode = ''train''" "sample_method = ''copy''" "s = 2" "length (data_y d) = 10"
      "count_eq (data_y d) 0 = 8" "count_eq (data_y d) 1 = 2"
  proof -
    have c: "count_eq (data_y d) (minority_label (data_y d)) = 2"
      using that(5,6) by (simp add: minority_label_def)
    have "balance_features_labels fit_resample X (data_y d) 2 ''copy'' = Inr (Some (X1, y))"
      using train that(1,2,3) by simp
    then have "y = data_y d @ replicate (2 * nat 2) (minority_label (data_y d))"
      using copy_result [OF X, of 2 fit_resample] c by simp
    then show ?thesis
      using that(4) out(2) by (simp add: to_float_def)
  qed
  have scen: "mode = ''train'' \<and> sample_method = ''copy'' \<and> s = 2 \<and> length (data_y d) = 10 \<and>
          count_eq (data_y d) 0 = 8 \<and> count_eq (data_y d) 1 = 2 \<longrightarrow>
            length labels = 14 \<and> (\<exists>ps. probs = Tensor1 ps \<and> length ps = 14)"
  proof (intro impI)
    assume a: "mode = ''train'' \<and> sample_method = ''copy'' \<and> s = 2 \<and> length (data_y d) = 10 \<and>
          count_eq (data_y d) 0 = 8 \<and> count_eq (data_y d) 1 = 2"
    then have n: "length labels = 14"
      using scenario by blast
    then have "length labels \<noteq> 1"
      by simp
    with shape obtain ps where "probs = Tensor1 ps" "length ps = length labels"
      by blast
    with n show "length labels = 14 \<and> (\<exists>ps. probs = Tensor1 ps \<and> length ps = 14)"
      by simp
  qed
  from shape have s1: "length labels \<noteq> 1 \<longrightarrow>
            (\<exists>ps. probs = Tensor1 ps \<and> length ps = length labels)"
    and s2: "length labels = 1 \<longrightarrow> (\<exists>p. probs = Tensor0 p)"
    by blast+
  show ?thesis
    by (intro conjI) (rule s1, rule s2, rule labels_eval, rule scen)
qed

lemma draw_zero: "draw n (\<lambda>i. 0 :: real) = (replicate n 0, \<lambda>i. 0)"
  by (simp add: draw_def map_replicate_const)

lemma example_model_eq:
  "example_model =
     \<lparr>self_GNN = Some (MultiLayerGCN ''relu'' [\<lparr>conv_call = GCNConv 1 1, conv_params = []\<rparr>]),
      self_prototype_layer = Some \<lparr>dim0 = 1, dim1 = 2, dim2 = 1, entries = [0, 0]\<rparr>,
      self_mlp = Some \<lparr>self_fc_layers =
                          [\<lparr>in_dim = 2, out_dim = 1, weight = [[0, 0]], bias = [0]\<rparr>,
                           \<lparr>in_dim = 1, out_dim = 1, weight = [[0]], bias = [0]\<rparr>],
                        self_n_layers = 1, self_dropout = 1 / 10, self_training = True\<rparr>,
      self_sigmoid = True\<rparr>"
  by (simp add: example_model_def example_library_def SLADGNN_init_def Module_init_def
      MultiLayerGCN_init_def new_conv_def torch_randn_def MLPReadout_init_def Linear_def
      chunks_def draw_zero Let_def eval_nat_numeral upt_rec)


lemmas forward_eval =
  SLADGNN_forward_def example_model_eq example_library_def example_batch_def apply_conv_def
  F_relu_def F_gelu_def map_entries_def reshape_last_def chunks_def calculate_similarity_def
  expand_cols_def epsilon_def MLPReadout_forward_def F_dropout_def linear_forward_def
  nn_Sigmoid_def squeeze_def to_float_def Let_def upt_rec enumerate_eq_zip

lemma one_node:
  "SLADGNN_forward example_library (\<lambda>a X y. Inl RuntimeError) (\<lambda>n i j. True) example_model
     (example_batch [0]) ''eval'' 0 ''copy'' () = Inr (Tensor0 (1 / 2), [0])"
  by (simp add: forward_eval)

lemma two_nodes:
  "SLADGNN_forward example_library (\<lambda>a X y. Inl RuntimeError) (\<lambda>n i j. True) example_model
     (example_batch [0, 1]) ''eval'' 0 ''copy'' () = Inr (Tensor1 [1 / 2, 1 / 2], [0, 1])"
  by (simp add: forward_eval)

lemma ten_nodes:
  "SLADGNN_forward example_library (\<lambda>a X y. Inl RuntimeError) (\<lambda>n i j. True) example_model
     (example_batch [0, 0, 0, 0, 0, 0, 0, 0, 1, 1]) ''train'' 2 ''copy'' () =
   Inr (Tensor1 (replicate 14 (1 / 2)), [0, 0, 0, 0, 0, 0, 0, 0, 1, 1, 1, 1, 1, 1])"
  by (simp add: forward_eval balance_features_labels_def minority_label_def count_eq_def
      where_eq_def index_rows_def cat0_def eval_nat_numeral)


lemma MLPReadout_init_scalar:
  "scalar_head (self\<lparr>self_mlp := Some (fst (MLPReadout_init input_dim 1 p 1 g))\<rparr>)"
  by (simp add: scalar_head_def MLPReadout_init_def Linear_def draw_def chunks_def Let_def
      split_beta)

lemma SLADGNN_init_scalar_head:
  assumes "SLADGNN_init ext gnn_head_num gnn_dropout activation_fuc GNN_type num_features
     hidden_sizes num_classes num_prototypes_per_class mlp_input_dim mlp_hidden_dim 1 g =
       (None, self, g')"
  shows "scalar_head self"
proof -
  from SLADGNN_init_readout [OF assms] obtain g2
    where "self_mlp self = Some (fst (MLPReadout_init mlp_input_dim 1 (1 / 10) 1 g2))"
    by blast
  then have "self = self\<lparr>self_mlp := Some (fst (MLPReadout_init mlp_input_dim 1 (1 / 10) 1 g2))\<rparr>"
    by simp
  then show ?thesis
    by (metis MLPReadout_init_scalar)
qed

lemma example_conditions:
  "node_wise example_library" "paired (\<lambda>a X y. Inl RuntimeError)" "scalar_head example_model"
  "length (rows (data_x (example_batch y))) = length (data_y (example_batch y))"
  by (simp_all add: node_wise_def paired_def example_library_def example_model_eq scalar_head_def
      example_batch_def)


theorem SLADGNN_forward_returned_pair_witness:
  "(\<exists>p. SLADGNN_forward example_library (\<lambda>a X y. Inl RuntimeError) (\<lambda>n i j. True)
          example_model (example_batch [0]) ''eval'' 0 ''copy'' () =
          Inr (Tensor0 p, to_float example_library [0])) \<and>
   (\<exists>ps. SLADGNN_forward example_library (\<lambda>a X y. Inl RuntimeError) (\<lambda>n i j. True)
          example_model (example_batch [0, 1]) ''eval'' 0 ''copy'' () =
          Inr (Tensor1 ps, to_float example_library [0, 1]) \<and> length ps = 2) \<and>
   (\<exists>ps labels.
      SLADGNN_forward example_library (\<lambda>a X y. Inl RuntimeError) (\<lambda>n i j. True) example_model
        (example_batch [0, 0, 0, 0, 0, 0, 0, 0, 1, 1]) ''train'' 2 ''copy'' () =
        Inr (Tensor1 ps, labels) \<and>
      length labels = 14 \<and> length ps = 14)"
proof (intro conjI)
  show "\<exists>p. SLADGNN_forward example_library (\<lambda>a X y. Inl RuntimeError) (\<lambda>n i j. True)
          example_model (example_batch [0]) ''eval'' 0 ''copy'' () =
          Inr (Tensor0 p, to_float example_library [0])"
    using SLADGNN_forward_returned_pair [OF example_conditions one_node] one_node
    by (simp add: example_batch_def to_float_def example_library_def)
  show "\<exists>ps. SLADGNN_forward example_library (\<lambda>a X y. Inl RuntimeError) (\<lambda>n i j. True)
          example_model (example_batch [0, 1]) ''eval'' 0 ''copy'' () =
          Inr (Tensor1 ps, to_float example_library [0, 1]) \<and> length ps = 2"
    using SLADGNN_forward_returned_pair [OF example_conditions two_nodes] two_nodes
    by (simp add: example_batch_def to_float_def example_library_def)
  show "\<exists>ps labels.
      SLADGNN_forward example_library (\<lambda>a X y. Inl RuntimeError) (\<lambda>n i j. True) example_model
        (example_batch [0, 0, 0, 0, 0, 0, 0, 0, 1, 1]) ''train'' 2 ''copy'' () =
        Inr (Tensor1 ps, labels) \<and>
      length labels = 14 \<and> length ps = 14"
    using SLADGNN_forward_returned_pair [OF example_conditions ten_nodes] ten_nodes
    by (simp add: example_batch_def to_float_def count_eq_def)
qed

section \<open>Properties of the prototype similarity\<close>

text \<open>Rounding to the nearest integer and to the nearest binary32 number.\<close>

lemma round_even_bounds: "\<lfloor>r\<rfloor> \<le> round_even r" "round_even r \<le> \<lfloor>r\<rfloor> + 1"
  by (simp_all add: round_even_def Let_def)

lemma round_even_of_int [simp]: "round_even (of_int k) = k"
  by (simp add: round_even_def)

lemma round_even_ge: "of_int a \<le> r \<Longrightarrow> a \<le> round_even r"
proof -
  assume "of_int a \<le> r"
  then have "a \<le> \<lfloor>r\<rfloor>" by (simp add: le_floor_iff)
  then show ?thesis
    using round_even_bounds(1) [of r] by linarith
qed

lemma round_even_le: "r \<le> of_int b \<Longrightarrow> round_even r \<le> b"
proof -
  assume le: "r \<le> of_int b"
  show ?thesis
  proof (cases "r = of_int b")
    case True
    then show ?thesis by simp
  next
    case False
    with le have "r < of_int b" by simp
    then have "\<lfloor>r\<rfloor> < b" by (simp add: floor_less_iff)
    then show ?thesis
      using round_even_bounds(2) [of r] by simp
  qed
qed

lemma round_even_mono: "r \<le> s \<Longrightarrow> round_even r \<le> round_even s"
proof -
  assume le: "r \<le> s"
  then have fl: "\<lfloor>r\<rfloor> \<le> \<lfloor>s\<rfloor>" by (rule floor_mono)
  show ?thesis
  proof (cases "\<lfloor>r\<rfloor> = \<lfloor>s\<rfloor>")
    case True
    with le show ?thesis
      by (auto simp: round_even_def Let_def)
  next
    case False
    with fl have "\<lfloor>r\<rfloor> + 1 \<le> \<lfloor>s\<rfloor>" by simp
    then show ?thesis
      using round_even_bounds(2) [of r] round_even_bounds(1) [of s] by simp
  qed
qed


lemma ulp32_pos: "0 < ulp32 x"
  by (simp add: ulp32_def)

text \<open>Rounding within a known binade.\<close>

lemma rnd32_binade:
  assumes "2 powr of_int e \<le> x" and "x < 2 powr (of_int e + 1)" and "- 126 \<le> e"
  shows "rnd32 x = of_int (round_even (x / 2 powr (of_int e - 23))) * 2 powr (of_int e - 23)"
proof -
  have pos: "0 < x"
    using assms(1) powr_gt_zero [of 2 "of_int e"] by linarith
  then have "\<lfloor>log 2 x\<rfloor> = e"
    using assms(1,2) by (simp add: floor_log_eq_powr_iff)
  then have "ulp32 x = 2 powr (of_int e - 23)"
    using pos assms(3) by (simp add: ulp32_def expo32_def max_def)
  then show ?thesis
    using pos by (simp add: rnd32_def)
qed

lemma rnd32_subnormal:
  assumes "0 < x" and "x < 2 powr (- 126)"
  shows "rnd32 x = of_int (round_even (x / 2 powr (- 149))) * 2 powr (- 149)"
proof -
  have "log 2 x < - 126"
    using assms by (simp add: log_less_iff)
  then have "\<lfloor>log 2 x\<rfloor> < - 126"
    by (simp add: floor_less_iff)
  then have "ulp32 x = 2 powr (- 149)"
    using assms(1) by (simp add: ulp32_def expo32_def max_def)
  then show ?thesis
    using assms(1) by (simp add: rnd32_def)
qed


lemma rnd32_pos_eq:
  "0 < x \<Longrightarrow> rnd32 x = of_int (round_even (x / ulp32 x)) * ulp32 x"
  by (simp add: rnd32_def)

lemma rnd32_nonneg: "0 \<le> x \<Longrightarrow> 0 \<le> rnd32 x"
proof (cases "x = 0")
  case True
  then show ?thesis by (simp add: rnd32_def)
next
  case False
  assume "0 \<le> x"
  with False have pos: "0 < x" by simp
  have "0 \<le> x / ulp32 x"
    using pos ulp32_pos [of x] by simp
  then have "0 \<le> round_even (x / ulp32 x)"
    using round_even_ge [of 0 "x / ulp32 x"] by simp
  then show ?thesis
    using ulp32_pos [of x] by (simp add: rnd32_pos_eq [OF pos])
qed

lemma rnd32_upper:
  assumes "0 < x"
  shows "rnd32 x \<le> 2 powr (of_int (expo32 x) + 1)"
proof -
  let ?e = "expo32 x"
  have "log 2 x < of_int \<lfloor>log 2 x\<rfloor> + 1"
    by linarith
  also have "\<dots> \<le> of_int ?e + 1"
    using assms by (simp add: expo32_def)
  finally have "x < 2 powr (of_int ?e + 1)"
    using assms by (simp add: log_less_iff)
  then have "x / ulp32 x < 2 powr (of_int ?e + 1) / ulp32 x"
    using ulp32_pos [of x] by (simp add: divide_strict_right_mono)
  also have "2 powr (of_int ?e + 1) / ulp32 x = 2 powr 24"
    by (simp add: ulp32_def flip: powr_diff)
  also have "\<dots> = of_int (2 ^ 24)"
    by (simp add: powr_numeral)
  finally have "round_even (x / ulp32 x) \<le> 2 ^ 24"
    using round_even_le [of "x / ulp32 x" "2 ^ 24"] by simp
  then have "of_int (round_even (x / ulp32 x)) * ulp32 x \<le> of_int (2 ^ 24) * ulp32 x"
    using ulp32_pos [of x] by (intro mult_right_mono) (simp_all del: of_int_power)
  also have "of_int (2 ^ 24) * ulp32 x = 2 powr 24 * 2 powr (of_int ?e - 23)"
    by (simp add: ulp32_def powr_numeral)
  also have "\<dots> = 2 powr (of_int ?e + 1)"
    using powr_add [of "2 :: real" 24 "of_int ?e - 23"] by (simp add: add.commute)
  finally show ?thesis
    unfolding rnd32_pos_eq [OF assms] .
qed

lemma rnd32_lower:
  assumes "0 < x" and "- 126 \<le> \<lfloor>log 2 x\<rfloor>"
  shows "2 powr of_int (expo32 x) \<le> rnd32 x"
proof -
  let ?e = "expo32 x"
  have e: "?e = \<lfloor>log 2 x\<rfloor>"
    using assms by (simp add: expo32_def)
  have "of_int ?e \<le> log 2 x"
    unfolding e by simp
  then have "2 powr of_int ?e \<le> x"
    using assms(1) by (simp add: le_log_iff)
  then have "2 powr of_int ?e / ulp32 x \<le> x / ulp32 x"
    using ulp32_pos [of x] by (simp add: divide_right_mono)
  moreover have "2 powr of_int ?e / ulp32 x = 2 powr 23"
    by (simp add: ulp32_def flip: powr_diff)
  moreover have "(2 :: real) powr 23 = of_int (2 ^ 23)"
    by (simp add: powr_numeral)
  ultimately have "2 ^ 23 \<le> round_even (x / ulp32 x)"
    using round_even_ge [of "2 ^ 23" "x / ulp32 x"] by simp
  then have ge: "of_int (2 ^ 23) * ulp32 x \<le> of_int (round_even (x / ulp32 x)) * ulp32 x"
    using ulp32_pos [of x] by (intro mult_right_mono) (simp_all del: of_int_power)
  have "(2 :: real) powr of_int ?e = 2 powr 23 * 2 powr (of_int ?e - 23)"
    using powr_add [of "2 :: real" 23 "of_int ?e - 23"] by simp
  also have "\<dots> = of_int (2 ^ 23) * ulp32 x"
    by (simp add: ulp32_def powr_numeral)
  also note ge
  finally show ?thesis
    unfolding rnd32_pos_eq [OF assms(1)] .
qed

lemma expo32_mono: "0 < x \<Longrightarrow> x \<le> y \<Longrightarrow> expo32 x \<le> expo32 y"
  unfolding expo32_def by (intro max.mono floor_mono) simp_all

lemma rnd32_mono:
  assumes "0 \<le> x" and "x \<le> y"
  shows "rnd32 x \<le> rnd32 y"
proof (cases "x = 0")
  case True
  then show ?thesis
    using rnd32_nonneg [of y] assms by (simp add: rnd32_def)
next
  case False
  with assms have x: "0 < x" and y: "0 < y" by simp_all
  show ?thesis
  proof (cases "expo32 x = expo32 y")
    case True
    then have u: "ulp32 x = ulp32 y"
      by (simp add: ulp32_def)
    have "x / ulp32 y \<le> y / ulp32 y"
      using assms(2) ulp32_pos [of y] by (simp add: divide_right_mono)
    then have "round_even (x / ulp32 y) \<le> round_even (y / ulp32 y)"
      by (rule round_even_mono)
    then show ?thesis
      using ulp32_pos [of y] by (simp add: rnd32_pos_eq x y u mult_right_mono)
  next
    case False
    with expo32_mono [OF x assms(2)] have lt: "expo32 x + 1 \<le> expo32 y"
      by simp
    then have "- 126 < expo32 y"
      by (simp add: expo32_def)
    then have "- 126 \<le> \<lfloor>log 2 y\<rfloor>"
      using y by (simp add: expo32_def max_def split: if_splits)
    then have "2 powr of_int (expo32 y) \<le> rnd32 y"
      by (rule rnd32_lower [OF y])
    moreover have "(2 :: real) powr (of_int (expo32 x) + 1) \<le> 2 powr of_int (expo32 y)"
    proof -
      have "real_of_int (expo32 x + 1) \<le> real_of_int (expo32 y)"
        using lt by (simp only: of_int_le_iff)
      then have "real_of_int (expo32 x) + 1 \<le> real_of_int (expo32 y)"
        by simp
      then show ?thesis
        by (rule powr_mono) simp
    qed
    ultimately show ?thesis
      using rnd32_upper [OF x] by linarith
  qed
qed


lemma rnd32_exact:
  assumes "2 ^ 23 \<le> m" and "m < 2 ^ 24" and "- 126 \<le> e"
  shows "rnd32 (of_int m * 2 powr (of_int e - 23)) = of_int m * 2 powr (of_int e - 23)"
proof -
  let ?u = "(2 :: real) powr (of_int e - 23)"
  have u: "0 < ?u" by simp
  have lo: "(2 :: real) powr of_int e = of_int (2 ^ 23) * ?u"
    using powr_add [of "2 :: real" 23 "of_int e - 23"] by simp
  have hi: "(2 :: real) powr (of_int e + 1) = of_int (2 ^ 24) * ?u"
    using powr_add [of "2 :: real" 24 "of_int e - 23"] by (simp add: add.commute)
  have "of_int (2 ^ 23) * ?u \<le> of_int m * ?u"
    using assms(1) u by (intro mult_right_mono) (simp_all del: of_int_power)
  then have 1: "2 powr of_int e \<le> of_int m * ?u"
    by (simp only: lo)
  have "of_int m * ?u < of_int (2 ^ 24) * ?u"
    using assms(2) u by (intro mult_strict_right_mono) (simp_all del: of_int_power)
  then have 2: "of_int m * ?u < 2 powr (of_int e + 1)"
    by (simp only: hi)
  show ?thesis
    using rnd32_binade [OF 1 2 assms(3)] by simp
qed

lemma round_even_near: "0 \<le> t \<Longrightarrow> t < 1 / 2 \<Longrightarrow> round_even (of_int k + t) = k"
proof -
  assume t: "0 \<le> t" "t < 1 / 2"
  then have "\<lfloor>of_int k + t\<rfloor> = k"
    by (simp add: floor_eq_iff)
  then show ?thesis
    using t by (simp add: round_even_def)
qed

lemma max32_value: "max32 = 340282346638528859811704183484516925440"
  by (simp add: max32_def)

lemma round32_zero: "round32 0 = Finite 0"
  by (simp add: round32_def rnd32_def max32_def)

lemma rnd32_values:
  "rnd32 1 = 1" "rnd32 4 = 4" "rnd32 16 = 16" "rnd32 (1 / 4) = 1 / 4"
  "rnd32 (1 / 16384) = 1 / 16384" "rnd32 16384 = 16384"
  "rnd32 4096 = 4096" "rnd32 5000 = 5000"
  "rnd32 16777216 = 16777216" "rnd32 25000000 = 25000000"
  using rnd32_exact [of 8388608 0] rnd32_exact [of 8388608 2] rnd32_exact [of 8388608 4]
    rnd32_exact [of 8388608 "- 2"] rnd32_exact [of 8388608 "- 14"] rnd32_exact [of 8388608 14]
    rnd32_exact [of 8388608 12] rnd32_exact [of 10240000 12]
    rnd32_exact [of 8388608 24] rnd32_exact [of 12500000 24]
  by (simp_all add: powr_minus powr_numeral field_simps)


lemma round32_finite:
  "rnd32 x = r \<Longrightarrow> - max32 \<le> r \<Longrightarrow> r \<le> max32 \<Longrightarrow> round32 x = Finite r"
  by (auto simp: round32_def)

lemma round32_values:
  "round32 1 = Finite 1" "round32 4096 = Finite 4096" "round32 5000 = Finite 5000"
  "round32 16777216 = Finite 16777216" "round32 25000000 = Finite 25000000"
  by (rule round32_finite, simp add: rnd32_values, simp add: max32_value, simp add: max32_value)+

lemma round32_ties:
  "round32 16777217 = Finite 16777216" "round32 25000001 = Finite 25000000"
proof -
  have "rnd32 16777217 = 16777216"
    using rnd32_binade [of 24 16777217] by (simp add: powr_numeral round_even_def)
  then show "round32 16777217 = Finite 16777216"
    by (rule round32_finite) (simp_all add: max32_value)
  have "rnd32 25000001 = 25000000"
    using rnd32_binade [of 24 25000001] by (simp add: powr_numeral round_even_def)
  then show "round32 25000001 = Finite 25000000"
    by (rule round32_finite) (simp_all add: max32_value)
qed

lemma epsilon32_bounds: "1 / 16384 \<le> rnd32 epsilon" "rnd32 epsilon \<le> 1 / 4"
  using rnd32_mono [of "1 / 16384" epsilon] rnd32_mono [of epsilon "1 / 4"]
  by (simp_all add: epsilon_def rnd32_values)

lemma round32_epsilon: "round32 epsilon = Finite (rnd32 epsilon)"
  using epsilon32_bounds by (intro round32_finite) (simp_all add: max32_value)


lemma round32_absorb:
  assumes "0 \<le> t" and "t < 1"
  shows "round32 (16777216 + t) = Finite 16777216"
    and "round32 (25000000 + t) = Finite 25000000"
proof -
  have half: "0 \<le> t / 2" "t / 2 < 1 / 2"
    using assms by simp_all
  have "(16777216 + t) / 2 powr (of_int 24 - 23) = of_int 8388608 + t / 2"
    by simp
  then have "rnd32 (16777216 + t) = 16777216"
    using rnd32_binade [of 24 "16777216 + t"] assms round_even_near [OF half, of 8388608]
    by (simp add: powr_numeral add_divide_distrib)
  then show "round32 (16777216 + t) = Finite 16777216"
    by (rule round32_finite) (simp_all add: max32_value)
  have "(25000000 + t) / 2 powr (of_int 24 - 23) = of_int 12500000 + t / 2"
    by simp
  then have "rnd32 (25000000 + t) = 25000000"
    using rnd32_binade [of 24 "25000000 + t"] assms round_even_near [OF half, of 12500000]
    by (simp add: powr_numeral add_divide_distrib)
  then show "round32 (25000000 + t) = Finite 25000000"
    by (rule round32_finite) (simp_all add: max32_value)
qed

lemma sqrt_values: "sqrt 16777216 = 4096" "sqrt 25000000 = 5000"
  by (rule real_sqrt_unique; simp)+

lemma rnd32_more_values: "rnd32 (1 / 8192) = 1 / 8192" "rnd32 8192 = 8192" "rnd32 8 = 8"
  using rnd32_exact [of 8388608 "- 13"] rnd32_exact [of 8388608 13] rnd32_exact [of 8388608 3]
  by (simp_all add: powr_minus powr_numeral field_simps)

lemma not_negative_round32: "0 \<le> x \<Longrightarrow> not_negative (round32 x)"
  using rnd32_nonneg [of x] by (simp add: round32_def not_negative_def max32_value)

lemma not_negative_log_ratio32:
  assumes "not_negative d"
  shows "not_negative (log_ratio32 d)"
proof (cases d)
  case (Finite r)
  with assms have r: "0 \<le> r" by (simp add: not_negative_def)
  let ?a = "rnd32 (r + 1)" and ?b = "rnd32 (r + rnd32 epsilon)"
  have eps: "1 / 16384 \<le> rnd32 epsilon" "rnd32 epsilon \<le> 1 / 4"
    by (rule epsilon32_bounds)+
  have ba: "?b \<le> ?a"
    using r eps by (intro rnd32_mono) simp_all
  have b: "1 / 16384 \<le> ?b"
    using rnd32_mono [of "1 / 16384" "r + rnd32 epsilon"] r eps by (simp add: rnd32_values)
  have a: "1 \<le> ?a"
    using rnd32_mono [of 1 "r + 1"] r by (simp add: rnd32_values)
  have ratio: "log_ratio32 d = f32_log (f32_div (round32 (r + 1)) (round32 (r + rnd32 epsilon)))"
    by (simp add: log_ratio32_def Finite round32_values round32_epsilon)
  show ?thesis
  proof (cases "max32 < ?a")
    case True
    then have "round32 (r + 1) = PInf"
      by (simp add: round32_def)
    moreover have "round32 (r + rnd32 epsilon) = PInf \<or> round32 (r + rnd32 epsilon) = Finite ?b"
      using b by (simp add: round32_def max32_value)
    ultimately show ?thesis
      using b by (auto simp: ratio not_negative_def)
  next
    case False
    then have fa: "round32 (r + 1) = Finite ?a"
      using a by (simp add: round32_def max32_value)
    have fb: "round32 (r + rnd32 epsilon) = Finite ?b"
      using False ba b by (simp add: round32_def max32_value)
    have "1 \<le> ?a / ?b"
      using b ba by simp
    then have q: "1 \<le> rnd32 (?a / ?b)"
      using rnd32_mono [of 1 "?a / ?b"] by (simp add: rnd32_values)
    have div: "f32_div (Finite ?a) (Finite ?b) = round32 (?a / ?b)"
      using b by simp
    show ?thesis
    proof (cases "max32 < rnd32 (?a / ?b)")
      case True
      then have "round32 (?a / ?b) = PInf"
        by (simp add: round32_def)
      then have "log_ratio32 d = f32_log PInf"
        unfolding ratio fa fb div by simp
      then show ?thesis
        by (simp add: not_negative_def)
    next
      case False
      then have fq: "round32 (?a / ?b) = Finite (rnd32 (?a / ?b))"
        using q by (simp add: round32_def max32_value)
      have "log_ratio32 d = f32_log (Finite (rnd32 (?a / ?b)))"
        unfolding ratio fa fb div fq ..
      moreover have "0 \<le> ln (rnd32 (?a / ?b))"
        using q by simp
      ultimately show ?thesis
        using q by (simp add: not_negative_round32)
    qed
  qed
next
  case PInf
  then show ?thesis
    by (simp add: log_ratio32_def round32_values round32_epsilon not_negative_def)
next
  case NInf
  with assms show ?thesis by (simp add: not_negative_def)
next
  case NaN
  then show ?thesis
    by (simp add: log_ratio32_def not_negative_def)
qed

lemma not_negative_square: "not_negative (f32_square x)"
proof (cases x)
  case (Finite a)
  then show ?thesis
    using not_negative_round32 [of "a * a"] by simp
qed (simp_all add: not_negative_def)

lemma not_negative_distance32: "not_negative (distance32 x p)"
  by (simp add: distance32_def not_negative_square)


lemma rnd32_epsilon: "rnd32 epsilon = 13743895 / 137438953472"
proof -
  have t: "(0 :: real) \<le> 217 / 625" "(217 :: real) / 625 < 1 / 2"
    by simp_all
  have "epsilon / 2 powr (of_int (- 14) - 23) = of_int 13743895 + 217 / 625"
    by (simp add: epsilon_def powr_minus powr_numeral)
  then show ?thesis
    using rnd32_binade [of "- 14" epsilon] round_even_near [OF t, of 13743895]
    by (simp add: epsilon_def powr_minus powr_numeral)
qed

lemma rnd32_epsilon_idem: "rnd32 (13743895 / 137438953472) = 13743895 / 137438953472"
  using rnd32_exact [of 13743895 "- 14"] by (simp add: powr_minus powr_numeral)

lemma rnd32_inverse_epsilon: "rnd32 (137438953472 / 13743895) = 10000"
proof -
  have t: "(0 :: real) \<le> 3555328 / 13743895" "(3555328 :: real) / 13743895 < 1 / 2"
    by simp_all
  have "(137438953472 / 13743895) / 2 powr (of_int 13 - 23) =
      of_int 10240000 + (3555328 / 13743895 :: real)"
    by (simp add: powr_minus powr_numeral)
  then show ?thesis
    using rnd32_binade [of 13 "137438953472 / 13743895"] round_even_near [OF t, of 10240000]
    by (simp add: powr_minus powr_numeral)
qed

lemma ln_10000_bounds: "8 \<le> ln (10000 :: real)" "ln (10000 :: real) \<le> 16"
proof -
  have e8: "exp (8 :: real) = exp 1 ^ 8"
    using exp_of_nat_mult [of 8 "1 :: real"] by simp
  have "exp (1 :: real) ^ 8 \<le> 3 ^ 8"
    by (rule power_mono) (simp_all add: exp_le)
  then have "exp (8 :: real) \<le> 10000"
    unfolding e8 by simp
  then show "8 \<le> ln (10000 :: real)"
    by (simp add: ln_ge_iff)
  have e16: "exp (16 :: real) = exp 1 ^ 16"
    using exp_of_nat_mult [of 16 "1 :: real"] by simp
  have "(2 :: real) \<le> exp 1"
    using exp_ge_add_one_self [of 1] by simp
  then have "(2 :: real) ^ 16 \<le> exp 1 ^ 16"
    by (rule power_mono) simp
  then have "(10000 :: real) \<le> exp 16"
    unfolding e16 by simp
  then have "ln (10000 :: real) \<le> ln (exp 16)"
    by (subst ln_le_cancel_iff) simp_all
  then show "ln (10000 :: real) \<le> 16"
    by simp
qed

lemma log_ratio32_zero: "log_ratio32 (Finite 0) = round32 (ln (1 / epsilon))"
proof -
  have e: "round32 (rnd32 epsilon) = Finite (13743895 / 137438953472)"
    unfolding rnd32_epsilon
    by (rule round32_finite) (simp_all add: rnd32_epsilon_idem max32_value)
  have q: "round32 (137438953472 / 13743895) = Finite 10000"
    by (rule round32_finite) (simp_all add: rnd32_inverse_epsilon max32_value)
  have "log_ratio32 (Finite 0) = f32_log (f32_div (Finite 1) (round32 (rnd32 epsilon)))"
    by (simp add: log_ratio32_def round32_values round32_epsilon)
  also have "\<dots> = f32_log (round32 (137438953472 / 13743895))"
    unfolding e by simp
  also have "\<dots> = round32 (ln 10000)"
    unfolding q by simp
  finally show ?thesis
    by (simp add: epsilon_def)
qed

lemma round32_ln_inverse_epsilon:
  "\<exists>v. round32 (ln (1 / epsilon)) = Finite v \<and> 8 \<le> v \<and> v \<le> 16"
proof -
  let ?v = "rnd32 (ln 10000)"
  have lo: "8 \<le> ?v"
    using rnd32_mono [of 8 "ln 10000"] ln_10000_bounds by (simp add: rnd32_more_values)
  have hi: "?v \<le> 16"
    using rnd32_mono [of "ln 10000" 16] ln_10000_bounds by (simp add: rnd32_values)
  have "round32 (ln 10000) = Finite ?v"
    using lo hi by (intro round32_finite) (simp_all add: max32_value)
  then show ?thesis
    using lo hi by (simp add: epsilon_def)
qed

lemma finite32_iff: "finite32 a \<longleftrightarrow> (\<exists>r. a = Finite r)"
  by (cases a) simp_all

lemma f32_sub_self: "list_all finite32 x \<Longrightarrow> map2 f32_sub x x = replicate (length x) (Finite 0)"
  by (induction x) (auto simp: f32_sub_def round32_zero finite32_iff)

lemma foldl_f32_add_zero: "foldl f32_add (Finite 0) (replicate n (Finite 0)) = Finite 0"
  by (induction n) (simp_all add: round32_zero)

lemma distance32_self: "list_all finite32 x \<Longrightarrow> distance32 x x = Finite 0"
  by (simp add: distance32_def f32_norm_def f32_sub_self foldl_f32_add_zero round32_zero)

lemma distance32_values:
  "distance32 [Finite 4096] [Finite 0] = Finite 16777216"
  "distance32 [Finite 5000] [Finite 0] = Finite 25000000"
  by (simp_all add: distance32_def f32_norm_def f32_sub_def round32_values round32_zero sqrt_values)

lemma binary32_similarity_rows:
  assumes "cols P = cols X"
  shows "calculate_similarity binary32 X P =
    Inr \<lparr>cols = length (rows P),
         rows = map (\<lambda>node. map (\<lambda>prototype. log_ratio32 (distance32 node prototype)) (rows P))
                  (rows X)\<rparr>"
  using assms
  by (simp add: calculate_similarity_def expand_cols_def binary32_def log_ratio32_def
      distance32_def Let_def)

text \<open>The values that the three embeddings 4096, 4097.5 and 5000 meet.\<close>

lemma round_even_between:
  assumes "of_int k - 1 / 2 < r" and "r < of_int k + 1 / 2"
  shows "round_even r = k"
proof (cases "r < of_int k")
  case True
  then have "\<lfloor>r\<rfloor> = k - 1"
    using assms by (simp add: floor_eq_iff)
  then show ?thesis
    using assms by (simp add: round_even_def)
next
  case False
  then have "\<lfloor>r\<rfloor> = k"
    using assms by (simp add: floor_eq_iff)
  then show ?thesis
    using assms by (simp add: round_even_def)
qed

lemma rnd32_exact_values:
  "rnd32 (8195 / 2) = 8195 / 2" "rnd32 16789506 = 16789506"
  "rnd32 (8388609 / 8388608) = 8388609 / 8388608" "rnd32 (1 / 16777216) = 1 / 16777216"
  using rnd32_exact [of 8391680 12] rnd32_exact [of 8394753 24] rnd32_exact [of 8388609 0]
    rnd32_exact [of 8388608 "- 24"]
  by (simp_all add: powr_minus powr_numeral field_simps)

lemma round32_exact_values:
  "round32 (8195 / 2) = Finite (8195 / 2)" "round32 16789506 = Finite 16789506"
  by (rule round32_finite, simp add: rnd32_exact_values, simp add: max32_value, simp add: max32_value)+

lemma round32_square_4097: "round32 (67158025 / 4) = Finite 16789506"
proof -
  have t: "(0 :: real) \<le> 1 / 8" "(1 :: real) / 8 < 1 / 2"
    by simp_all
  have "(67158025 / 4) / 2 powr (of_int 24 - 23) = of_int 8394753 + (1 / 8 :: real)"
    by simp
  then have "rnd32 (67158025 / 4) = 16789506"
    using rnd32_binade [of 24 "67158025 / 4"] round_even_near [OF t, of 8394753]
    by (simp add: powr_numeral)
  then show ?thesis
    by (rule round32_finite) (simp_all add: max32_value)
qed

lemma sqrt_16789506_bounds: "8391679 / 2048 + 1 / 4096 < sqrt 16789506" "sqrt 16789506 < 8195 / 2"
proof -
  show "8391679 / 2048 + 1 / 4096 < sqrt 16789506"
    by (rule real_less_rsqrt) (simp add: power2_eq_square field_simps)
  show "sqrt 16789506 < 8195 / 2"
    by (rule real_less_lsqrt) (simp_all add: power2_eq_square)
qed

lemma round32_sqrt_16789506: "round32 (sqrt 16789506) = Finite (8195 / 2)"
proof -
  let ?s = "sqrt 16789506"
  have b: "8391679 / 2048 + 1 / 4096 < ?s" "?s < 8195 / 2"
    by (rule sqrt_16789506_bounds)+
  have u: "?s / 2 powr (of_int 12 - 23) = ?s * 2048"
    by (simp add: powr_minus powr_numeral)
  have "of_int 8391680 - 1 / 2 < ?s * 2048" "?s * 2048 < of_int 8391680 + 1 / 2"
    using b by simp_all
  then have r: "round_even (?s * 2048) = 8391680"
    by (rule round_even_between)
  have "2 powr of_int 12 \<le> ?s" "?s < 2 powr (of_int 12 + 1)"
    using b by (simp_all add: powr_numeral)
  then have "rnd32 ?s = of_int (round_even (?s / 2 powr (of_int 12 - 23))) * 2 powr (of_int 12 - 23)"
    by (rule rnd32_binade) simp
  then have "rnd32 ?s = 8195 / 2"
    unfolding u r by (simp add: powr_minus powr_numeral)
  then show ?thesis
    by (rule round32_finite) (simp_all add: max32_value)
qed

lemma round32_16789507: "round32 16789507 = Finite 16789508"
proof -
  have "rnd32 16789507 = 16789508"
    using rnd32_binade [of 24 16789507] by (simp add: powr_numeral round_even_def)
  then show ?thesis
    by (rule round32_finite) (simp_all add: max32_value)
qed

lemma round32_absorb_16789506:
  assumes "0 \<le> t" and "t < 1"
  shows "round32 (16789506 + t) = Finite 16789506"
proof -
  have half: "0 \<le> t / 2" "t / 2 < 1 / 2"
    using assms by simp_all
  have "(16789506 + t) / 2 powr (of_int 24 - 23) = of_int 8394753 + t / 2"
    by simp
  then have "rnd32 (16789506 + t) = 16789506"
    using rnd32_binade [of 24 "16789506 + t"] assms round_even_near [OF half, of 8394753]
    by (simp add: powr_numeral add_divide_distrib)
  then show ?thesis
    by (rule round32_finite) (simp_all add: max32_value)
qed

lemma round32_quotient: "round32 (8394754 / 8394753) = Finite (8388609 / 8388608)"
proof -
  let ?q = "8394754 / 8394753 :: real"
  have u: "?q / 2 powr (of_int 0 - 23) = ?q * 8388608"
    by (simp add: powr_minus powr_numeral)
  have "of_int 8388609 - 1 / 2 < ?q * 8388608" "?q * 8388608 < of_int 8388609 + 1 / 2"
    by simp_all
  then have r: "round_even (?q * 8388608) = 8388609"
    by (rule round_even_between)
  have "2 powr of_int 0 \<le> ?q" "?q < 2 powr (of_int 0 + 1)"
    by simp_all
  then have "rnd32 ?q = of_int (round_even (?q / 2 powr (of_int 0 - 23))) * 2 powr (of_int 0 - 23)"
    by (rule rnd32_binade) simp
  then have "rnd32 ?q = 8388609 / 8388608"
    unfolding u r by (simp add: powr_minus powr_numeral)
  then show ?thesis
    by (rule round32_finite) (simp_all add: max32_value)
qed

lemma round32_ln_above_one:
  "\<exists>v. round32 (ln (8388609 / 8388608)) = Finite v \<and> 0 < v"
proof -
  let ?x = "1 / 8388608 :: real"
  let ?v = "rnd32 (ln (8388609 / 8388608))"
  have "?x - ?x\<^sup>2 \<le> ln (1 + ?x)"
    by (rule ln_one_plus_pos_lower_bound) simp_all
  then have lo: "1 / 16777216 \<le> ln (8388609 / 8388608 :: real)"
    by (simp add: power2_eq_square)
  have "ln (8388609 / 8388608 :: real) \<le> 8388609 / 8388608 - 1"
    by (rule ln_le_minus_one) simp
  then have hi: "ln (8388609 / 8388608 :: real) \<le> 1"
    by simp
  have l: "1 / 16777216 \<le> ?v"
    using rnd32_mono [of "1 / 16777216" "ln (8388609 / 8388608)"] lo
    by (simp add: rnd32_exact_values)
  have h: "?v \<le> 1"
    using rnd32_mono [of "ln (8388609 / 8388608)" 1] lo hi by (simp add: rnd32_values)
  have "round32 (ln (8388609 / 8388608)) = Finite ?v"
    using l h by (intro round32_finite) (simp_all add: max32_value)
  then show ?thesis
    using l by auto
qed

lemma distance32_4097: "distance32 [Finite (8195 / 2)] [Finite 0] = Finite 16789506"
  by (simp add: distance32_def f32_norm_def f32_sub_def round32_exact_values round32_zero
      round32_square_4097 round32_sqrt_16789506)

lemma log_ratio32_16789506: "\<exists>v. log_ratio32 (Finite 16789506) = Finite v \<and> 0 < v"
proof -
  have eps: "0 \<le> rnd32 epsilon" "rnd32 epsilon < 1"
    using epsilon32_bounds by simp_all
  have "log_ratio32 (Finite 16789506) = f32_log (f32_div (Finite 16789508) (Finite 16789506))"
    by (simp add: log_ratio32_def round32_values round32_epsilon round32_16789507
        round32_absorb_16789506 [OF eps])
  also have "\<dots> = f32_log (Finite (8388609 / 8388608))"
    by (simp add: round32_quotient)
  also have "\<dots> = round32 (ln (8388609 / 8388608))"
    by simp
  finally show ?thesis
    using round32_ln_above_one by simp
qed

lemma log_ratio32_large:
  "log_ratio32 (Finite 16777216) = Finite 0" "log_ratio32 (Finite 25000000) = Finite 0"
proof -
  have eps: "0 \<le> rnd32 epsilon" "rnd32 epsilon < 1"
    using epsilon32_bounds by simp_all
  show "log_ratio32 (Finite 16777216) = Finite 0"
    by (simp add: log_ratio32_def round32_values round32_epsilon round32_ties
        round32_absorb [OF eps] round32_zero)
  show "log_ratio32 (Finite 25000000) = Finite 0"
    by (simp add: log_ratio32_def round32_values round32_epsilon round32_ties
        round32_absorb [OF eps] round32_zero)
qed

text \<open>
  Claim C2, as binary32 has it.  For an \<open>n \<times> d\<close> embedding matrix and a \<open>k \<times> d\<close> prototype
  matrix \<open>calculate_similarity\<close> returns an \<open>n \<times> k\<close> matrix whose entry \<open>(i, j)\<close> is
  \<open>log ((distance + 1) / (distance + \<epsilon>))\<close> with \<open>\<epsilon> = 1e-4\<close>, each operation rounded, where
  \<open>distance\<close> is the squared norm of the difference of embedding \<open>i\<close> and prototype \<open>j\<close>.  No
  entry is negative: it is NaN, which an overflowing distance gives, or a number that is
  at least 0.  An embedding of finite numbers that equals the prototype has distance 0,
  and at distance 0 the entry is \<open>ln (1 / \<epsilon>)\<close> rounded to binary32, a number between 8 and
  16.  An entry can be 0, and it can grow with the distance.
\<close>

theorem calculate_similarity_binary32:
  assumes "cols P = cols X"
  shows "\<exists>S. calculate_similarity binary32 X P = Inr S \<and>
    length (rows S) = length (rows X) \<and> cols S = length (rows P) \<and>
    (\<forall>i<length (rows X). length (rows S ! i) = length (rows P) \<and>
       (\<forall>j<length (rows P).
          rows S ! i ! j = log_ratio32 (distance32 (rows X ! i) (rows P ! j)) \<and>
          not_negative (rows S ! i ! j) \<and>
          (list_all finite32 (rows X ! i) \<and> rows P ! j = rows X ! i \<longrightarrow>
             distance32 (rows X ! i) (rows P ! j) = Finite 0) \<and>
          (distance32 (rows X ! i) (rows P ! j) = Finite 0 \<longrightarrow>
             rows S ! i ! j = round32 (ln (1 / epsilon)) \<and>
             (\<exists>v. rows S ! i ! j = Finite v \<and> 8 \<le> v \<and> v \<le> 16))))"
proof -
  let ?S = "\<lparr>cols = length (rows P),
         rows = map (\<lambda>node. map (\<lambda>prototype. log_ratio32 (distance32 node prototype)) (rows P))
                  (rows X)\<rparr>"
  have cell: "rows ?S ! i ! j = log_ratio32 (distance32 (rows X ! i) (rows P ! j))"
    if "i < length (rows X)" "j < length (rows P)" for i j
    using that by simp
  have cells: "rows ?S ! i ! j = log_ratio32 (distance32 (rows X ! i) (rows P ! j)) \<and>
          not_negative (rows ?S ! i ! j) \<and>
          (list_all finite32 (rows X ! i) \<and> rows P ! j = rows X ! i \<longrightarrow>
             distance32 (rows X ! i) (rows P ! j) = Finite 0) \<and>
          (distance32 (rows X ! i) (rows P ! j) = Finite 0 \<longrightarrow>
             rows ?S ! i ! j = round32 (ln (1 / epsilon)) \<and>
             (\<exists>v. rows ?S ! i ! j = Finite v \<and> 8 \<le> v \<and> v \<le> 16))"
    if ij: "i < length (rows X)" "j < length (rows P)" for i j
  proof -
    have a: "not_negative (rows ?S ! i ! j)"
      unfolding cell [OF ij] by (rule not_negative_log_ratio32) (rule not_negative_distance32)
    have b: "list_all finite32 (rows X ! i) \<and> rows P ! j = rows X ! i \<longrightarrow>
             distance32 (rows X ! i) (rows P ! j) = Finite 0"
      by (simp add: distance32_self)
    have c: "distance32 (rows X ! i) (rows P ! j) = Finite 0 \<longrightarrow>
             rows ?S ! i ! j = round32 (ln (1 / epsilon)) \<and>
             (\<exists>v. rows ?S ! i ! j = Finite v \<and> 8 \<le> v \<and> v \<le> 16)"
      unfolding cell [OF ij] using round32_ln_inverse_epsilon by (simp add: log_ratio32_zero)
    show ?thesis
      using cell [OF ij] a b c by blast
  qed
  have len: "length (rows ?S ! i) = length (rows P)" if "i < length (rows X)" for i
    using that by simp
  have "calculate_similarity binary32 X P = Inr ?S"
    using assms by (rule binary32_similarity_rows)
  moreover have "length (rows ?S) = length (rows X)" "cols ?S = length (rows P)"
    by simp_all
  ultimately show ?thesis
    using cells len by blast
qed

theorem calculate_similarity_binary32_witness:
  "\<exists>S. calculate_similarity binary32 \<lparr>cols = 1, rows = [[Finite 3]]\<rparr>
          \<lparr>cols = 1, rows = [[Finite 3]]\<rparr> = Inr S \<and>
       rows S ! 0 ! 0 = round32 (ln (1 / epsilon)) \<and>
       (\<exists>v. rows S ! 0 ! 0 = Finite v \<and> 8 \<le> v \<and> v \<le> 16)"
  using calculate_similarity_binary32
    [of "\<lparr>cols = 1, rows = [[Finite 3]]\<rparr>" "\<lparr>cols = 1, rows = [[Finite 3]]\<rparr>"]
  by auto

text \<open>
  From the squared distance \<open>2 ^ 24\<close> on, \<open>distance + \<epsilon>\<close> rounds back to the distance and
  \<open>distance + 1\<close> to the distance or to its neighbour.  The embeddings 4096, 4097.5 and
  5000 are at the squared distances 16777216, 16789506 and 25000000 of the prototype 0:
  the first and the third entry are exactly 0, so an entry need not be positive, and the
  second is positive, so a larger distance can give a larger entry.
\<close>

theorem calculate_similarity_distance_counterexample:
  "\<exists>v. calculate_similarity binary32
          \<lparr>cols = 1, rows = [[Finite 4096], [Finite (8195 / 2)], [Finite 5000]]\<rparr>
          \<lparr>cols = 1, rows = [[Finite 0]]\<rparr> =
        Inr \<lparr>cols = 1, rows = [[Finite 0], [Finite v], [Finite 0]]\<rparr> \<and> 0 < v \<and>
        distance32 [Finite 4096] [Finite 0] = Finite 16777216 \<and>
        distance32 [Finite (8195 / 2)] [Finite 0] = Finite 16789506 \<and>
        distance32 [Finite 5000] [Finite 0] = Finite 25000000"
proof -
  obtain v where v: "log_ratio32 (Finite 16789506) = Finite v" "0 < v"
    using log_ratio32_16789506 by blast
  have "calculate_similarity binary32
          \<lparr>cols = 1, rows = [[Finite 4096], [Finite (8195 / 2)], [Finite 5000]]\<rparr>
          \<lparr>cols = 1, rows = [[Finite 0]]\<rparr> =
        Inr \<lparr>cols = 1, rows = [[Finite 0], [Finite v], [Finite 0]]\<rparr>"
    by (simp add: binary32_similarity_rows distance32_values distance32_4097
        log_ratio32_large v)
  then show ?thesis
    using v by (auto simp: distance32_values distance32_4097)
qed

end
